theory Spec2Isabelle
  imports Main "HOL-Library.Word"
begin

section \<open>Data model of cmd/tvx/extract.go\<close>

text \<open>
  \<open>cid.Cid\<close> and \<open>address.Address\<close> are Go structs around one string; a
  \<open>types.TipSetKey\<close> is the list of the block CIDs of a tipset, and
  \<open>types.EmptyTSK\<close> the empty one. \<open>abi.ChainEpoch\<close> is an \<open>int64\<close>.
\<close>

type_synonym cid = string
type_synonym address = string
type_synonym bytes = "8 word list"
type_synonym ChainEpoch = "64 word"
type_synonym TipSetKey = "cid list"

definition EmptyTSK :: TipSetKey where
  "EmptyTSK = []"

text \<open>
  \<open>types.Message\<close> is declared outside extract.go; the fields are those the data
  model of the specification lists (sender, receiver, nonce, method, parameters, value).
  Of these extract.go reads \<open>From\<close> only. The method \<open>Cid()\<close>, the content hash of
  a message, is taken as a parameter \<open>mcid\<close> wherever the code calls it.
\<close>

record types_Message =
  To :: address
  From :: address
  Nonce :: "64 word"
  Value :: int
  Method :: "64 word"
  Params :: bytes

text \<open>\<open>api.Message\<close>: an entry of the canonical message list, a CID beside a message.\<close>

record api_Message =
  Cid :: cid
  Message :: types_Message

text \<open>
  Errors. \<open>Opaque\<close> is an error value made outside extract.go (by the chain API, the
  engine, the operating system); \<open>Errorf\<close> is \<open>fmt.Errorf\<close> with its format string
  and arguments (\<open>ArgW\<close> the error wrapped by \<open>%w\<close>); \<open>Panic\<close> is a run-time panic.
\<close>

datatype error = Opaque string | Errorf string "fmtarg list" | Panic string
  and fmtarg = ArgS string | ArgD int | ArgW error

section \<open>The precursor selector\<close>

definition PrecursorSelectAll :: string where
  "PrecursorSelectAll = ''all''"

definition PrecursorSelectSender :: string where
  "PrecursorSelectSender = ''sender''"

text \<open>
  The body of the \<open>for _, other := range msgs\<close> loop of \<open>findMsgAndPrecursors\<close>,
  with the slice \<open>related\<close> as accumulator. The \<open>switch\<close> has two cases: the first
  (\<open>mode == PrecursorSelectAll\<close>) falls through into the body of the second, which
  appends \<open>other.Message\<close>; the second is taken when the mode is \<open>sender\<close> and the
  senders agree. After the switch the entry's CID is compared with the target's.
\<close>

fun findLoop :: "(types_Message \<Rightarrow> cid) \<Rightarrow> string \<Rightarrow> types_Message \<Rightarrow> api_Message list
    \<Rightarrow> types_Message list \<Rightarrow> types_Message list \<times> bool \<times> error option" where
  "findLoop mcid mode target [] related = (related, False, None)"
| "findLoop mcid mode target (other # rest) related =
     (let related' =
        (if mode = PrecursorSelectAll then related @ [Message other]
         else if mode = PrecursorSelectSender \<and> From (Message other) = From target
              then related @ [Message other]
         else related)
      in if Cid other = mcid target then (related', True, None)
         else findLoop mcid mode target rest related')"

definition findMsgAndPrecursors :: "(types_Message \<Rightarrow> cid) \<Rightarrow> string \<Rightarrow> types_Message
    \<Rightarrow> api_Message list \<Rightarrow> types_Message list \<times> bool \<times> error option" where
  "findMsgAndPrecursors mcid mode target msgs = findLoop mcid mode target msgs []"

text \<open>
  The Go slice expression \<open>xs[:n]\<close> on a slice whose capacity is its length: it panics
  when \<open>n\<close> is negative or beyond the length.
\<close>

definition slice_upto :: "'a list \<Rightarrow> int \<Rightarrow> error + 'a list" where
  "slice_upto xs n =
     (if 0 \<le> n \<and> n \<le> int (length xs) then Inr (take (nat n) xs)
      else Inl (Panic ''slice bounds out of range''))"

text \<open>The inclusion predicate that the \<open>switch\<close> computes.\<close>

definition included :: "string \<Rightarrow> types_Message \<Rightarrow> api_Message \<Rightarrow> bool" where
  "included mode target other \<longleftrightarrow>
     mode = PrecursorSelectAll \<or>
     (mode = PrecursorSelectSender \<and> From (Message other) = From target)"

section \<open>Chain data, receipts and the vector document\<close>

text \<open>
  The types below are declared in other packages; each record holds the fields and
  accessor results that extract.go reads or writes. \<open>Blocks\<close> is the result of
  \<open>TipSet.Blocks()\<close>, which the code indexes at 0.
\<close>

record types_BlockHeader =
  BlockCid :: cid
  BlockHeight :: ChainEpoch
  ParentBaseFee :: int

record types_TipSet =
  Key :: TipSetKey
  Height :: ChainEpoch
  Parents :: TipSetKey
  ParentState :: cid
  Blocks :: "types_BlockHeader list"

record api_MsgLookup =
  LookupTipSet :: TipSetKey

record api_CirculatingSupply =
  FilCirculating :: int

record types_MessageReceipt =
  rec_ExitCode :: int
  rec_Return :: bytes
  rec_GasUsed :: int

record vm_ApplyRet =
  ExitCode :: int
  Return :: bytes
  GasUsed :: int

record ExecuteMessageParams =
  p_Preroot :: cid
  p_Epoch :: ChainEpoch
  p_Message :: types_Message
  p_CircSupply :: int
  p_BaseFee :: int

record schema_Receipt =
  sr_ExitCode :: int
  sr_ReturnValue :: bytes
  sr_GasUsed :: int

record schema_GenerationData =
  Source :: string
  GenVersion :: string

record schema_Metadata =
  ID :: string
  Gen :: "schema_GenerationData list"

record schema_Preconditions =
  pre_Epoch :: ChainEpoch
  pre_CircSupply :: int
  pre_BaseFee :: int
  pre_RootCID :: cid

record schema_Postconditions =
  post_RootCID :: cid
  Receipts :: "schema_Receipt list"

record schema_TestVector =
  Class :: string
  Meta :: schema_Metadata
  CAR :: bytes
  Pre :: schema_Preconditions
  ApplyMessages :: "bytes list"
  Post :: schema_Postconditions

record extractOpts =
  o_id :: string
  o_block :: string
  o_class :: string
  o_cid :: string
  o_file :: string
  o_retain :: string
  o_precursor :: string

section \<open>Effects\<close>

text \<open>
  What a run does besides returning: it changes the blockstore behind
  \<open>pst.Blockstore\<close> (of an abstract type \<open>'s\<close>), and it leaves an ordered trace of
  log lines (with the colour given by package \<open>color\<close>; the arguments of the format
  are not kept), of engine executions with their outcome, of masked-tree constructions,
  and of the calls made on the destination.
\<close>

datatype colour = Plain | Green | Red | Yellow

datatype dest = Stdout | File string

datatype event =
    Log colour string
  | Executed ExecuteMessageParams "error + cid"
  | GetMaskedStateTree_call cid "address list"
  | MkdirAll string
  | Create string
  | Write dest bytes
  | Close string

record 's world =
  store :: 's
  trace :: "event list"

type_synonym ('s, 'a) run = "'s world \<Rightarrow> (error + 'a) \<times> 's world"

definition ok :: "'a \<Rightarrow> ('s, 'a) run" where
  "ok a w = (Inr a, w)"

definition abort :: "error \<Rightarrow> ('s, 'a) run" where
  "abort e w = (Inl e, w)"

text \<open>Sequencing: an error ends the run (\<open>if err != nil { return err }\<close>).\<close>

definition andThen :: "('s, 'a) run \<Rightarrow> ('a \<Rightarrow> ('s, 'b) run) \<Rightarrow> ('s, 'b) run" where
  "andThen m f w = (case m w of (Inl e, w') \<Rightarrow> (Inl e, w') | (Inr a, w') \<Rightarrow> f a w')"

text \<open>The answer of a call that changes neither the store nor the trace.\<close>

definition query :: "error + 'a \<Rightarrow> ('s, 'a) run" where
  "query r w = (r, w)"

text \<open>\<open>fmt.Errorf(format + ": %w", err)\<close> around a failing step.\<close>

definition wrapping :: "string \<Rightarrow> ('s, 'a) run \<Rightarrow> ('s, 'a) run" where
  "wrapping format m w =
     (case m w of (Inl e, w') \<Rightarrow> (Inl (Errorf format [ArgW e]), w') | (Inr a, w') \<Rightarrow> (Inr a, w'))"

definition emit :: "event \<Rightarrow> ('s, unit) run" where
  "emit ev w = (Inr (), w\<lparr>trace := trace w @ [ev]\<rparr>)"

definition on_store :: "('s \<Rightarrow> (error + 'a) \<times> 's) \<Rightarrow> ('s, 'a) run" where
  "on_store f w = (case f (store w) of (r, s') \<Rightarrow> (r, w\<lparr>store := s'\<rparr>))"

text \<open>Deferred calls run when the function returns, whatever it returns.\<close>

definition deferring :: "event list \<Rightarrow> ('s, 'a) run \<Rightarrow> ('s, 'a) run" where
  "deferring evs m w = (case m w of (r, w') \<Rightarrow> (r, w'\<lparr>trace := trace w' @ evs\<rparr>))"

section \<open>The collaborators\<close>

text \<open>
  Everything extract.go calls and does not define: go-cid, the chain API
  (\<open>api.FullNode\<close>) at one fixed chain state, the conformance driver, the proxying
  stores and the state surgeon, gzip over a byte buffer, and the \<open>os\<close> and
  \<open>encoding/json\<close> calls of the output. The engine, the surgeon and the archive writers
  work on the blockstore and may change it. \<open>json_Encode\<close> gives the bytes that reached
  the destination and the error of \<open>enc.Encode\<close>, if any.
\<close>

record 's env =
  cid_Decode :: "string \<Rightarrow> error + cid"
  cid_String :: "cid \<Rightarrow> string"
  TipSetKey_String :: "TipSetKey \<Rightarrow> string"
  Message_Cid :: "types_Message \<Rightarrow> cid"
  Message_Serialize :: "types_Message \<Rightarrow> error + bytes"
  ChainGetMessage :: "cid \<Rightarrow> error + types_Message"
  StateSearchMsg :: "cid \<Rightarrow> error + api_MsgLookup"
  ChainGetBlock :: "cid \<Rightarrow> error + types_BlockHeader"
  ChainGetTipSetByHeight :: "ChainEpoch \<Rightarrow> TipSetKey \<Rightarrow> error + types_TipSet"
  ChainGetTipSet :: "TipSetKey \<Rightarrow> error + types_TipSet"
  StateCirculatingSupply :: "TipSetKey \<Rightarrow> error + api_CirculatingSupply"
  ChainGetParentMessages :: "cid \<Rightarrow> error + api_Message list"
  StateGetReceipt :: "cid \<Rightarrow> TipSetKey \<Rightarrow> error + types_MessageReceipt option"
  api_Version :: "error + string"
  StateNetworkName :: "error + string"
  ExecuteMessage :: "'s \<Rightarrow> ExecuteMessageParams \<Rightarrow> (error + vm_ApplyRet \<times> cid) \<times> 's"
  isTracingBlockstore :: bool
  StartTracing :: "'s \<Rightarrow> 's"
  FinishTracing :: "'s \<Rightarrow> cid set \<times> 's"
  GetAccessedActors :: "cid \<Rightarrow> error + address list"
  GetMaskedStateTree :: "'s \<Rightarrow> cid \<Rightarrow> address list \<Rightarrow> (error + cid) \<times> 's"
  WriteCARIncluding :: "'s \<Rightarrow> cid set \<Rightarrow> cid list \<Rightarrow> (error + bytes) \<times> 's"
  WriteCAR :: "'s \<Rightarrow> cid list \<Rightarrow> (error + bytes) \<times> 's"
  reward_Address :: address
  BurntFundsActorAddr :: address
  init_Address :: address
  gzip_Flush :: "bytes \<Rightarrow> error + unit"
  gzip_Close :: "bytes \<Rightarrow> error + unit"
  gzip_Bytes :: "bytes \<Rightarrow> bytes"
  filepath_Dir :: "string \<Rightarrow> string"
  os_MkdirAll :: "string \<Rightarrow> error + unit"
  os_Create :: "string \<Rightarrow> error + unit"
  json_Encode :: "dest \<Rightarrow> schema_TestVector \<Rightarrow> bytes \<times> error option"

section \<open>The chain resolver\<close>

text \<open>\<open>fetchThisAndPrevTipset\<close>: the tipset of the key, then the tipset of its parents.\<close>

definition fetchThisAndPrevTipset :: "'s env \<Rightarrow> TipSetKey \<Rightarrow> ('s, types_TipSet \<times> types_TipSet) run" where
  "fetchThisAndPrevTipset api target =
     andThen (query (ChainGetTipSet api target)) (\<lambda>targetTs.
     andThen (query (ChainGetTipSet api (Parents targetTs))) (\<lambda>prevTs.
     ok (targetTs, prevTs)))"

text \<open>
  \<open>resolveFromChain\<close>. An empty \<open>block\<close> string is the absence of a hint.
  \<open>blk.Height+1\<close> is an \<open>int64\<close> sum.
\<close>

definition resolveFromChain :: "'s env \<Rightarrow> cid \<Rightarrow> string
    \<Rightarrow> ('s, types_Message \<times> types_TipSet \<times> types_TipSet) run" where
  "resolveFromChain api mcid block =
     andThen (query (ChainGetMessage api mcid)) (\<lambda>msg.
     andThen (emit (Log Plain ''found message with CID %s: %+v'')) (\<lambda>_.
     if block = [] then
       andThen (emit (Log Plain ''locating message in blockchain'')) (\<lambda>_.
       andThen (wrapping ''failed to locate message: %w'' (query (StateSearchMsg api mcid))) (\<lambda>msgInfo.
       andThen (emit (Log Plain ''located message at tipset %s (height: %d) with exit code: %s'')) (\<lambda>_.
       andThen (fetchThisAndPrevTipset api (LookupTipSet msgInfo)) (\<lambda>(execTs, incTs).
       ok (msg, execTs, incTs)))))
     else
       andThen (query (cid_Decode api block)) (\<lambda>bcid.
       andThen (emit (Log Plain ''message inclusion block CID was provided; scanning around it: %s'')) (\<lambda>_.
       andThen (wrapping ''failed to get block: %w'' (query (ChainGetBlock api bcid))) (\<lambda>blk.
       andThen (wrapping ''failed to get message execution tipset: %w''
                 (query (ChainGetTipSetByHeight api (BlockHeight blk + 1) EmptyTSK))) (\<lambda>execTs.
       andThen (wrapping ''failed to get message inclusion tipset: %w''
                 (query (ChainGetTipSetByHeight api (BlockHeight blk) (Key execTs)))) (\<lambda>incTs.
       ok (msg, execTs, incTs))))))))"

section \<open>The pipeline\<close>

text \<open>\<open>ts.Blocks()[0]\<close>: indexing an empty slice panics.\<close>

definition first_block :: "types_TipSet \<Rightarrow> error + types_BlockHeader" where
  "first_block ts = (case Blocks ts of [] \<Rightarrow> Inl (Panic ''index out of range'') | b # _ \<Rightarrow> Inr b)"

text \<open>
  \<open>driver.ExecuteMessage(pst.Blockstore, params)\<close>: the engine works on the store; the
  trace keeps the parameters and the root it returned (or its error).
\<close>

definition execute :: "'s env \<Rightarrow> ExecuteMessageParams \<Rightarrow> ('s, vm_ApplyRet \<times> cid) run" where
  "execute env params w =
     (case ExecuteMessage env (store w) params of
        (r, s') \<Rightarrow> (r, \<lparr>store = s', trace = trace w @
           [Executed params (case r of Inl e \<Rightarrow> Inl e | Inr (ret, root) \<Rightarrow> Inr root)]\<rparr>))"

text \<open>\<open>g.GetMaskedStateTree(root, retain)\<close>; the trace keeps the arguments.\<close>

definition masked :: "'s env \<Rightarrow> cid \<Rightarrow> address list \<Rightarrow> ('s, cid) run" where
  "masked env root retain w =
     (case GetMaskedStateTree env (store w) root retain of
        (r, s') \<Rightarrow> (r, \<lparr>store = s', trace = trace w @ [GetMaskedStateTree_call root retain]\<rparr>))"

record located =
  l_mcid :: cid
  l_msg :: types_Message
  l_execTs :: types_TipSet
  l_incTs :: types_TipSet
  l_circSupplyDetail :: api_CirculatingSupply
  l_msgs :: "api_Message list"

text \<open>
  The closure \<open>carWriter\<close> with the variables it captures: the traced CIDs and the two
  roots for \<open>g.WriteCARIncluding\<close>, the two roots for \<open>g.WriteCAR\<close>. Calling it
  writes the archive; the value is the bytes written.
\<close>

datatype carWriter = CARIncluding "cid set" cid cid | CARAll cid cid

fun call_carWriter :: "'s env \<Rightarrow> carWriter \<Rightarrow> ('s, bytes) run" where
  "call_carWriter g (CARIncluding accessed preroot postroot) =
     on_store (\<lambda>s. WriteCARIncluding g s accessed [preroot, postroot])"
| "call_carWriter g (CARAll preroot postroot) =
     on_store (\<lambda>s. WriteCAR g s [preroot, postroot])"

record executed =
  x_basefee :: int
  x_preroot :: cid
  x_postroot :: cid
  x_applyret :: vm_ApplyRet
  x_carWriter :: carWriter

text \<open>
  \<open>doExtract\<close>, lines 127 to 154: decode the message CID, resolve the message and the
  two tipsets, fetch the circulating supply at the inclusion tipset and the messages of
  the execution tipset in canonical order.
\<close>

definition doExtract_locate :: "'s env \<Rightarrow> extractOpts \<Rightarrow> ('s, located) run" where
  "doExtract_locate fapi opts =
     andThen (query (cid_Decode fapi (o_cid opts))) (\<lambda>mcid.
     andThen (wrapping ''failed to resolve message and tipsets from chain: %w''
               (resolveFromChain fapi mcid (o_block opts))) (\<lambda>(msg, execTs, incTs).
     andThen (wrapping ''failed while fetching circulating supply: %w''
               (query (StateCirculatingSupply fapi (Key incTs)))) (\<lambda>circSupplyDetail.
     andThen (emit (Log Plain ''message was executed in tipset: %s'')) (\<lambda>_.
     andThen (emit (Log Plain ''message was included in tipset: %s'')) (\<lambda>_.
     andThen (emit (Log Plain ''circulating supply at inclusion tipset: %d'')) (\<lambda>_.
     andThen (emit (Log Plain ''finding precursor messages using mode: %s'')) (\<lambda>_.
     andThen (query (first_block execTs)) (\<lambda>b.
     andThen (wrapping ''failed to fetch messages in canonical order from inclusion tipset: %w''
               (query (ChainGetParentMessages fapi (BlockCid b)))) (\<lambda>msgs.
     ok \<lparr>l_mcid = mcid, l_msg = msg, l_execTs = execTs, l_incTs = incTs,
         l_circSupplyDetail = circSupplyDetail, l_msgs = msgs\<rparr>)))))))))"

text \<open>
  Lines 156 to 174: run the selector, treat its error and \<open>found = false\<close> as fatal,
  and split off the precursors. (The loop over the precursors' CIDs feeds the log line
  only.)
\<close>

definition doExtract_select :: "'s env \<Rightarrow> extractOpts \<Rightarrow> located \<Rightarrow> ('s, types_Message list) run" where
  "doExtract_select fapi opts l =
     (case findMsgAndPrecursors (Message_Cid fapi) (o_precursor opts) (l_msg l) (l_msgs l) of
        (related, found, err) \<Rightarrow>
          (case err of
             Some e \<Rightarrow> abort (Errorf ''failed while finding message and precursors: %w'' [ArgW e])
           | None \<Rightarrow>
               if \<not> found
               then abort (Errorf ''message not found; precursors found: %d''
                            [ArgD (int (length related))])
               else
                 andThen (query (slice_upto related (int (length related) - 1))) (\<lambda>precursors.
                 andThen (emit (Log Green ''found message; precursors (count: %d): %v'')) (\<lambda>_.
                 ok precursors))))"

text \<open>
  The loop of lines 195 to 207 over the precursors, with the running \<open>root\<close>: each
  execution starts from the root the one before returned; an error of the engine ends
  the run.
\<close>

fun replay :: "'s env \<Rightarrow> ChainEpoch \<Rightarrow> int \<Rightarrow> int \<Rightarrow> types_Message list \<Rightarrow> cid \<Rightarrow> ('s, cid) run" where
  "replay env epoch circ fee [] root w = (Inr root, w)"
| "replay env epoch circ fee (m # ms) root w =
     (case andThen (emit (Log Plain ''applying precursor %d, cid: %s'')) (\<lambda>_.
             wrapping ''failed to execute precursor message: %w''
               (execute env \<lparr>p_Preroot = root, p_Epoch = epoch, p_Message = m,
                              p_CircSupply = circ, p_BaseFee = fee\<rparr>)) w of
        (Inl e, w') \<Rightarrow> (Inl e, w')
      | (Inr (ret, root'), w') \<Rightarrow> replay env epoch circ fee ms root' w')"

text \<open>
  Lines 176 to 207: the starting root is the parent state of the inclusion tipset, the
  base fee that of its first block; then the precursors are replayed. (The constructors
  of the stores, the surgeon and the driver, lines 176 to 184, leave the store and the
  trace as they are.)
\<close>

definition doExtract_replay :: "'s env \<Rightarrow> located \<Rightarrow> types_Message list \<Rightarrow> ('s, int \<times> cid) run" where
  "doExtract_replay env l precursors =
     andThen (emit (Log Plain ''base state tree root CID: %s'')) (\<lambda>_.
     andThen (query (first_block (l_incTs l))) (\<lambda>b.
     andThen (emit (Log Plain ''basefee: %s'')) (\<lambda>_.
     andThen (emit (Log Plain ''number of precursors to apply: %d'')) (\<lambda>_.
     andThen (replay env (Height (l_execTs l)) (FilCirculating (l_circSupplyDetail l))
                (ParentBaseFee b) precursors (ParentState (l_incTs l))) (\<lambda>root.
     ok (ParentBaseFee b, root))))))"

text \<open>
  Lines 209 to 275, the \<open>switch retention\<close>. The closure \<open>carWriter\<close> is called
  later, by the assembly.
\<close>

definition doExtract_retain :: "'s env \<Rightarrow> extractOpts \<Rightarrow> located \<Rightarrow> int \<Rightarrow> cid \<Rightarrow> ('s, executed) run" where
  "doExtract_retain env opts l basefee root =
     andThen (emit (Log Plain ''using state retention strategy: %s'')) (\<lambda>_.
     if o_retain opts = ''accessed-cids'' then
       if \<not> isTracingBlockstore env
       then abort (Errorf ''requested 'accessed-cids' state retention, but no tracing blockstore was present'' [])
       else
         andThen (on_store (\<lambda>s. (Inr (), StartTracing env s))) (\<lambda>_.
         andThen (wrapping ''failed to execute message: %w''
                   (execute env \<lparr>p_Preroot = root, p_Epoch = Height (l_execTs l),
                      p_Message = l_msg l, p_CircSupply = FilCirculating (l_circSupplyDetail l),
                      p_BaseFee = basefee\<rparr>)) (\<lambda>(applyret, postroot).
         andThen (on_store (\<lambda>s. case FinishTracing env s of (acc, s') \<Rightarrow> (Inr acc, s'))) (\<lambda>accessed.
         ok \<lparr>x_basefee = basefee, x_preroot = root, x_postroot = postroot,
             x_applyret = applyret,
             x_carWriter = CARIncluding accessed root postroot\<rparr>)))
     else if o_retain opts = ''accessed-actors'' then
       andThen (emit (Log Plain ''calculating accessed actors'')) (\<lambda>_.
       andThen (wrapping ''failed to calculate accessed actors: %w''
                 (query (GetAccessedActors env (l_mcid l)))) (\<lambda>accessed.
       andThen (ok (accessed @ [reward_Address env, BurntFundsActorAddr env, init_Address env])) (\<lambda>retain.
       andThen (emit (Log Plain ''calculated accessed actors: %v'')) (\<lambda>_.
       andThen (masked env root retain) (\<lambda>preroot.
       andThen (wrapping ''failed to execute message: %w''
                 (execute env \<lparr>p_Preroot = preroot, p_Epoch = Height (l_execTs l),
                    p_Message = l_msg l, p_CircSupply = FilCirculating (l_circSupplyDetail l),
                    p_BaseFee = basefee\<rparr>)) (\<lambda>(applyret, postroot).
       ok \<lparr>x_basefee = basefee, x_preroot = preroot, x_postroot = postroot,
           x_applyret = applyret,
           x_carWriter = CARAll preroot postroot\<rparr>))))))
     else abort (Errorf ''unknown state retention option: %s'' [ArgS (o_retain opts)]))"

text \<open>
  Modelled from the spec: \<open>conformance.AssertMsgResult\<close> and
  \<open>conformance.LogReporter\<close> belong to package conformance, which is not part of
  extract.go. The specification (4.4, VerifyReceipt) has the authoritative receipt
  compared with the local result in exit code, return value and gas used, any mismatch
  being a failure. The value is that of \<open>reporter.Failed()\<close> after the assertion.
\<close>

definition AssertMsgResult_failed :: "schema_Receipt \<Rightarrow> vm_ApplyRet \<Rightarrow> bool" where
  "AssertMsgResult_failed expected actual \<longleftrightarrow>
     sr_ExitCode expected \<noteq> ExitCode actual \<or>
     sr_GasUsed expected \<noteq> GasUsed actual \<or>
     sr_ReturnValue expected \<noteq> Return actual"

text \<open>
  Lines 277 to 311: fetch the receipt of the chain; compare it with the local result
  when there is one, and build the local variable \<open>receipt\<close>.
\<close>

definition doExtract_verify :: "'s env \<Rightarrow> located \<Rightarrow> executed \<Rightarrow> ('s, schema_Receipt) run" where
  "doExtract_verify fapi l x =
     andThen (emit (Log Plain ''message applied; preroot: %s, postroot: %s'')) (\<lambda>_.
     andThen (emit (Log Plain ''performing sanity check on receipt'')) (\<lambda>_.
     andThen (wrapping ''failed to find receipt on chain: %w''
               (query (StateGetReceipt fapi (l_mcid l) (Key (l_execTs l))))) (\<lambda>rec.
     andThen (emit (Log Plain ''found receipt: %+v'')) (\<lambda>_.
     case rec of
       Some r \<Rightarrow>
         andThen (ok \<lparr>sr_ExitCode = rec_ExitCode r, sr_ReturnValue = rec_Return r,
                      sr_GasUsed = rec_GasUsed r\<rparr>) (\<lambda>receipt.
         if AssertMsgResult_failed receipt (x_applyret x)
         then
           andThen (emit (Log Red ''receipt sanity check failed; aborting'')) (\<lambda>_.
           abort (Errorf ''vector generation aborted'' []))
         else
           andThen (emit (Log Green ''receipt sanity check succeeded'')) (\<lambda>_.
           ok receipt))
     | None \<Rightarrow>
         andThen (ok \<lparr>sr_ExitCode = ExitCode (x_applyret x), sr_ReturnValue = Return (x_applyret x),
                      sr_GasUsed = GasUsed (x_applyret x)\<rparr>) (\<lambda>receipt.
         andThen (emit (Log Yellow ''skipping receipts comparison; we got back a nil receipt from lotus'')) (\<lambda>_.
         ok receipt))))))"

text \<open>
  Lines 313 to 381: serialize the message, write the archive through gzip into a buffer,
  ask for the node version and the network name, and build the vector. The receipt of the
  postconditions is built from \<open>applyret\<close>.
\<close>

definition doExtract_assemble :: "'s env \<Rightarrow> extractOpts \<Rightarrow> located \<Rightarrow> executed
    \<Rightarrow> ('s, schema_TestVector) run" where
  "doExtract_assemble fapi opts l x =
     andThen (emit (Log Plain ''generating vector'')) (\<lambda>_.
     andThen (query (Message_Serialize fapi (l_msg l))) (\<lambda>msgBytes.
     andThen (call_carWriter fapi (x_carWriter x)) (\<lambda>car.
     andThen (query (gzip_Flush fapi car)) (\<lambda>_.
     andThen (query (gzip_Close fapi car)) (\<lambda>_.
     andThen (query (api_Version fapi)) (\<lambda>version.
     andThen (query (StateNetworkName fapi)) (\<lambda>ntwkName.
     ok \<lparr>Class = ''message'',
         Meta = \<lparr>ID = o_id opts,
           Gen = [\<lparr>Source = ''network:'' @ ntwkName, GenVersion = []\<rparr>,
                  \<lparr>Source = ''message:'' @ cid_String fapi (Message_Cid fapi (l_msg l)),
                   GenVersion = []\<rparr>,
                  \<lparr>Source = ''inclusion_tipset:'' @ TipSetKey_String fapi (Key (l_incTs l)),
                   GenVersion = []\<rparr>,
                  \<lparr>Source = ''execution_tipset:'' @ TipSetKey_String fapi (Key (l_execTs l)),
                   GenVersion = []\<rparr>,
                  \<lparr>Source = ''github.com/filecoin-project/lotus'', GenVersion = version\<rparr>]\<rparr>,
         CAR = gzip_Bytes fapi car,
         Pre = \<lparr>pre_Epoch = Height (l_execTs l),
                pre_CircSupply = FilCirculating (l_circSupplyDetail l),
                pre_BaseFee = x_basefee x, pre_RootCID = x_preroot x\<rparr>,
         ApplyMessages = [msgBytes],
         Post = \<lparr>post_RootCID = x_postroot x,
                 Receipts = [\<lparr>sr_ExitCode = ExitCode (x_applyret x),
                              sr_ReturnValue = Return (x_applyret x),
                              sr_GasUsed = GasUsed (x_applyret x)\<rparr>]\<rparr>\<rparr>)))))))"

text \<open>\<open>enc.Encode(&vector)\<close> on the destination.\<close>

definition encode :: "'s env \<Rightarrow> dest \<Rightarrow> schema_TestVector \<Rightarrow> ('s, unit) run" where
  "encode env d vector w =
     (case json_Encode env d vector of
        (delivered, err) \<Rightarrow>
          ((case err of Some e \<Rightarrow> Inl e | None \<Rightarrow> Inr ()),
           w\<lparr>trace := trace w @ [Write d delivered]\<rparr>))"

text \<open>
  Lines 383 to 403: standard output, or the file of \<open>opts.file\<close>, created with its
  directory before the encoder runs; closing the file and the line \<open>wrote test vector\<close>
  are deferred.
\<close>

definition doExtract_output :: "'s env \<Rightarrow> extractOpts \<Rightarrow> schema_TestVector \<Rightarrow> ('s, unit) run" where
  "doExtract_output env opts vector =
     (if o_file opts \<noteq> [] then
        andThen (emit (MkdirAll (filepath_Dir env (o_file opts)))) (\<lambda>_.
        andThen (query (case os_MkdirAll env (filepath_Dir env (o_file opts)) of
                   Inl e \<Rightarrow> Inl (Errorf ''unable to create directory %s: %w''
                                   [ArgS (filepath_Dir env (o_file opts)), ArgW e])
                 | Inr u \<Rightarrow> Inr u)) (\<lambda>_.
        andThen (emit (Create (o_file opts))) (\<lambda>_.
        andThen (query (os_Create env (o_file opts))) (\<lambda>_.
        deferring [Log Plain ''wrote test vector to file: %s'', Close (o_file opts)]
          (encode env (File (o_file opts)) vector)))))
      else encode env Stdout vector)"

text \<open>The stages in sequence: up to the execution of the target, up to the vector, and all.\<close>

definition doExtract_execute :: "'s env \<Rightarrow> extractOpts \<Rightarrow> ('s, located \<times> executed) run" where
  "doExtract_execute fapi opts =
     andThen (doExtract_locate fapi opts) (\<lambda>l.
     andThen (doExtract_select fapi opts l) (\<lambda>precursors.
     andThen (doExtract_replay fapi l precursors) (\<lambda>(basefee, root).
     andThen (doExtract_retain fapi opts l basefee root) (\<lambda>x.
     ok (l, x)))))"

definition doExtract_vector :: "'s env \<Rightarrow> extractOpts \<Rightarrow> ('s, schema_TestVector) run" where
  "doExtract_vector fapi opts =
     andThen (doExtract_execute fapi opts) (\<lambda>(l, x).
     andThen (doExtract_verify fapi l x) (\<lambda>receipt.
     doExtract_assemble fapi opts l x))"

definition doExtract :: "'s env \<Rightarrow> extractOpts \<Rightarrow> ('s, unit) run" where
  "doExtract fapi opts =
     andThen (doExtract_vector fapi opts) (\<lambda>vector.
     doExtract_output fapi opts vector)"

text \<open>The calls on the destination in a trace.\<close>

fun is_fs :: "event \<Rightarrow> bool" where
  "is_fs (MkdirAll d) = True"
| "is_fs (Create f) = True"
| "is_fs (Write d b) = True"
| "is_fs (Close f) = True"
| "is_fs e = False"

text \<open>The destination of \<open>opts.file\<close>: standard output when it is empty.\<close>

definition destination :: "extractOpts \<Rightarrow> dest" where
  "destination opts = (if o_file opts = [] then Stdout else File (o_file opts))"

text \<open>The constructions of a masked tree, and the executions of the engine, in a trace.\<close>

fun is_masked :: "event \<Rightarrow> bool" where
  "is_masked (GetMaskedStateTree_call root retain) = True"
| "is_masked e = False"




text \<open>
  \<open>adds P S m\<close>: whatever the run \<open>m\<close> appends to the trace, the events among it that
  satisfy \<open>P\<close> are in \<open>S\<close>. With an empty \<open>S\<close> the run adds no such event.
\<close>

definition adds :: "(event \<Rightarrow> bool) \<Rightarrow> event set \<Rightarrow> ('s, 'a) run \<Rightarrow> bool" where
  "adds P S m \<longleftrightarrow>
     (\<forall>w. \<exists>evs. filter P (trace (snd (m w))) = filter P (trace w) @ evs \<and> set evs \<subseteq> S)"

text \<open>
  The masked-tree constructions on the list of the accessed actors of the message
  followed by the reward, burnt-funds and init actors.
\<close>

definition retain_calls :: "'s env \<Rightarrow> extractOpts \<Rightarrow> event set" where
  "retain_calls env opts =
     {GetMaskedStateTree_call root
        (accessed @ [reward_Address env, BurntFundsActorAddr env, init_Address env]) |
      root accessed mcid.
        o_retain opts = ''accessed-actors'' \<and> cid_Decode env (o_cid opts) = Inr mcid \<and>
        GetAccessedActors env mcid = Inr accessed}"

text \<open>The receipt of the local execution, as the vector records it.\<close>

definition local_receipt :: "vm_ApplyRet \<Rightarrow> schema_Receipt" where
  "local_receipt applyret = \<lparr>sr_ExitCode = ExitCode applyret, sr_ReturnValue = Return applyret,
     sr_GasUsed = GasUsed applyret\<rparr>"

section \<open>The example scenario of the specification\<close>

text \<open>
  Five messages; the sender \<open>S\<close> sends those at positions 0, 1, 3 and 4, another sender
  the one at position 2; the target is at position 3. In the examples the content hash of
  a message is stood in for by its sender and receiver.
\<close>

definition demo_msg :: "address \<Rightarrow> address \<Rightarrow> types_Message" where
  "demo_msg s r = \<lparr>To = r, From = s, Nonce = 0, Value = 0, Method = 0, Params = []\<rparr>"

definition demo_cid :: "types_Message \<Rightarrow> cid" where
  "demo_cid m = From m @ To m"

definition demo_entry :: "address \<Rightarrow> address \<Rightarrow> api_Message" where
  "demo_entry s r = \<lparr>Cid = demo_cid (demo_msg s r), Message = demo_msg s r\<rparr>"

definition demo_msgs :: "api_Message list" where
  "demo_msgs = [demo_entry ''S'' ''0'', demo_entry ''S'' ''1'', demo_entry ''T'' ''2'',
                demo_entry ''S'' ''3'', demo_entry ''S'' ''4'']"

definition demo_target :: types_Message where
  "demo_target = demo_msg ''S'' ''3''"

text \<open>
  A small chain around the example: the target is mined in block \<open>b7\<close> at height 7 and
  executed at height 8; the engine returns, as new root, the old root extended by the
  receiver of the message.
\<close>

definition demo_incTs :: types_TipSet where
  "demo_incTs = \<lparr>Key = [''b7''], Height = 7, Parents = [''b6''], ParentState = ''r'',
     Blocks = [\<lparr>BlockCid = ''b7'', BlockHeight = 7, ParentBaseFee = 100\<rparr>]\<rparr>"

definition demo_execTs :: types_TipSet where
  "demo_execTs = \<lparr>Key = [''b8''], Height = 8, Parents = [''b7''], ParentState = ''q'',
     Blocks = [\<lparr>BlockCid = ''b8'', BlockHeight = 8, ParentBaseFee = 100\<rparr>]\<rparr>"

definition demo_ret :: vm_ApplyRet where
  "demo_ret = \<lparr>ExitCode = 0, Return = [], GasUsed = 10\<rparr>"

definition demo_env :: "unit env" where
  "demo_env = \<lparr>
     cid_Decode = (\<lambda>s. if s = [] then Inl (Opaque ''invalid cid'') else Inr s),
     cid_String = (\<lambda>c. c),
     TipSetKey_String = concat,
     Message_Cid = demo_cid,
     Message_Serialize = (\<lambda>m. Inr []),
     ChainGetMessage = (\<lambda>c. if c = ''S3'' then Inr demo_target else Inl (Opaque ''not found'')),
     StateSearchMsg = (\<lambda>c. Inr \<lparr>LookupTipSet = [''b8'']\<rparr>),
     ChainGetBlock = (\<lambda>c. if c = ''b7''
        then Inr \<lparr>BlockCid = ''b7'', BlockHeight = 7, ParentBaseFee = 100\<rparr>
        else Inl (Opaque ''not found'')),
     ChainGetTipSetByHeight = (\<lambda>h anchor.
        if h = 8 \<and> anchor = EmptyTSK then Inr demo_execTs
        else if h = 7 \<and> anchor = [''b8''] then Inr demo_incTs
        else Inl (Opaque ''no tipset'')),
     ChainGetTipSet = (\<lambda>k.
        if k = [''b8''] then Inr demo_execTs
        else if k = [''b7''] then Inr demo_incTs
        else Inl (Opaque ''no tipset'')),
     StateCirculatingSupply = (\<lambda>k. Inr \<lparr>FilCirculating = 1000\<rparr>),
     ChainGetParentMessages = (\<lambda>c. Inr demo_msgs),
     StateGetReceipt = (\<lambda>c k. Inr (Some \<lparr>rec_ExitCode = 0, rec_Return = [], rec_GasUsed = 10\<rparr>)),
     api_Version = Inr ''1'',
     StateNetworkName = Inr ''net'',
     ExecuteMessage = (\<lambda>s p. (Inr (demo_ret, p_Preroot p @ To (p_Message p)), s)),
     isTracingBlockstore = True,
     StartTracing = (\<lambda>s. s),
     FinishTracing = (\<lambda>s. ({}, s)),
     GetAccessedActors = (\<lambda>c. Inr [''S'', ''3'']),
     GetMaskedStateTree = (\<lambda>s root retain. (Inr (''m'' @ root), s)),
     WriteCARIncluding = (\<lambda>s accessed roots. (Inr [], s)),
     WriteCAR = (\<lambda>s roots. (Inr [], s)),
     reward_Address = ''f02'',
     BurntFundsActorAddr = ''f099'',
     init_Address = ''f01'',
     gzip_Flush = (\<lambda>b. Inr ()),
     gzip_Close = (\<lambda>b. Inr ()),
     gzip_Bytes = (\<lambda>b. b),
     filepath_Dir = (\<lambda>f. ''.''),
     os_MkdirAll = (\<lambda>d. Inr ()),
     os_Create = (\<lambda>f. Inr ()),
     json_Encode = (\<lambda>d v. ([123, 125], None))\<rparr>"

definition demo_opts :: extractOpts where
  "demo_opts = \<lparr>o_id = ''v'', o_block = ''b7'', o_class = ''message'', o_cid = ''S3'',
     o_file = ''out'', o_retain = ''accessed-cids'', o_precursor = ''sender''\<rparr>"

definition demo_world :: "unit world" where
  "demo_world = \<lparr>store = (), trace = []\<rparr>"

text \<open>
  Variants of the example: the encoder fails after one byte has reached the file; the
  canonical list stops before the target; the chain's receipt differs in gas; the chain
  has no receipt; the actor-masked strategy. \<open>demo_located\<close> and \<open>demo_executed\<close> are
  what the first stages compute on the example.
\<close>

definition demo_full :: "unit env" where
  "demo_full = demo_env\<lparr>json_Encode := (\<lambda>d v. ([123], Some (Opaque ''no space left on device'')))\<rparr>"

definition demo_absent :: "unit env" where
  "demo_absent = demo_env\<lparr>ChainGetParentMessages := (\<lambda>c. Inr (take 3 demo_msgs))\<rparr>"

definition demo_mismatch :: "unit env" where
  "demo_mismatch = demo_env\<lparr>StateGetReceipt :=
     (\<lambda>c k. Inr (Some \<lparr>rec_ExitCode = 0, rec_Return = [], rec_GasUsed = 11\<rparr>))\<rparr>"

definition demo_nil :: "unit env" where
  "demo_nil = demo_env\<lparr>StateGetReceipt := (\<lambda>c k. Inr None)\<rparr>"

definition demo_down :: "unit env" where
  "demo_down = demo_env\<lparr>StateNetworkName := Inl (Opaque ''down'')\<rparr>"

definition demo_located :: located where
  "demo_located = \<lparr>l_mcid = ''S3'', l_msg = demo_target, l_execTs = demo_execTs,
     l_incTs = demo_incTs, l_circSupplyDetail = \<lparr>FilCirculating = 1000\<rparr>, l_msgs = demo_msgs\<rparr>"

definition demo_executed :: executed where
  "demo_executed = \<lparr>x_basefee = 100, x_preroot = ''r01'', x_postroot = ''r013'',
     x_applyret = demo_ret, x_carWriter = CARIncluding {} ''r01'' ''r013''\<rparr>"

definition demo_params :: "cid \<Rightarrow> address \<Rightarrow> ExecuteMessageParams" where
  "demo_params root r = \<lparr>p_Preroot = root, p_Epoch = 8, p_Message = demo_msg ''S'' r,
     p_CircSupply = 1000, p_BaseFee = 100\<rparr>"

definition demo_actors :: extractOpts where
  "demo_actors = demo_opts\<lparr>o_retain := ''accessed-actors''\<rparr>"

text \<open>
  A list whose first entry carries the target's CID beside a message of another sender.
\<close>

definition demo_forged :: "unit env" where
  "demo_forged = demo_env\<lparr>ChainGetParentMessages :=
     (\<lambda>c. Inr [\<lparr>Cid = ''S3'', Message = demo_msg ''T'' ''2''\<rparr>, demo_entry ''S'' ''3''])\<rparr>"

section \<open>Properties of the selector\<close>

lemma findLoop_absent:
  "\<forall>m \<in> set msgs. Cid m \<noteq> mcid target \<Longrightarrow>
   findLoop mcid mode target msgs acc =
     (acc @ map Message (filter (included mode target) msgs), False, None)"
  by (induction msgs arbitrary: acc) (auto simp: included_def Let_def)

lemma findLoop_first:
  "k < length msgs \<Longrightarrow> Cid (msgs ! k) = mcid target \<Longrightarrow>
   \<forall>j < k. Cid (msgs ! j) \<noteq> mcid target \<Longrightarrow>
   findLoop mcid mode target msgs acc =
     (acc @ map Message (filter (included mode target) (take (Suc k) msgs)), True, None)"
proof (induction msgs arbitrary: k acc)
  case Nil
  then show ?case by simp
next
  case (Cons other rest)
  show ?case
  proof (cases k)
    case 0
    with Cons.prems show ?thesis
      by (simp add: included_def Let_def)
  next
    case (Suc k')
    from Cons.prems Suc have hd_ne: "Cid other \<noteq> mcid target"
      by auto
    from Cons.prems Suc have k': "k' < length rest" "Cid (rest ! k') = mcid target"
      by auto
    from Cons.prems Suc have before: "\<forall>j < k'. Cid (rest ! j) \<noteq> mcid target"
      by auto
    from Cons.IH [OF k' before] hd_ne Suc show ?thesis
      by (simp add: included_def Let_def)
  qed
qed

lemma findLoop_err: "snd (snd (findLoop mcid mode target msgs acc)) = None"
  by (induction msgs arbitrary: acc) (auto simp: Let_def)

lemma findLoop_unknown_mode:
  "mode \<noteq> PrecursorSelectAll \<Longrightarrow> mode \<noteq> PrecursorSelectSender \<Longrightarrow>
   fst (findLoop mcid mode target msgs acc) = acc"
  by (induction msgs arbitrary: acc) (auto simp: Let_def)

lemma findLoop_found:
  "findLoop mcid mode target msgs acc = (related, True, e) \<Longrightarrow>
   \<exists>k < length msgs. Cid (msgs ! k) = mcid target \<and> (\<forall>j < k. Cid (msgs ! j) \<noteq> mcid target)"
proof (induction msgs arbitrary: acc)
  case Nil
  then show ?case by simp
next
  case (Cons other rest)
  show ?case
  proof (cases "Cid other = mcid target")
    case True
    then show ?thesis by auto
  next
    case False
    with Cons.prems obtain acc' where "findLoop mcid mode target rest acc' = (related, True, e)"
      by (auto simp: Let_def split: if_splits)
    from Cons.IH [OF this] obtain k where k: "k < length rest" "Cid (rest ! k) = mcid target"
      "\<forall>j < k. Cid (rest ! j) \<noteq> mcid target"
      by blast
    have "\<forall>j < Suc k. Cid ((other # rest) ! j) \<noteq> mcid target"
      using False k(3) by (auto simp: less_Suc_eq_0_disj)
    with k(1,2) show ?thesis
      by (intro exI [of _ "Suc k"]) auto
  qed
qed

text \<open>
  C10. The third result of the selector, its error, is nil for every mode string, every
  target and every canonical list; and a mode that is neither \<open>all\<close> nor \<open>sender\<close>
  is not reported: the inclusion predicate then accepts no message and the returned
  list is empty.
\<close>

theorem findMsgAndPrecursors_err_nil:
  "snd (snd (findMsgAndPrecursors mcid mode target msgs)) = None \<and>
   (mode \<noteq> PrecursorSelectAll \<and> mode \<noteq> PrecursorSelectSender \<longrightarrow>
      fst (findMsgAndPrecursors mcid mode target msgs) = [])"
  unfolding findMsgAndPrecursors_def
  using findLoop_err [of mcid mode target msgs "[]"]
    findLoop_unknown_mode [of mode mcid target msgs "[]"]
  by simp

text \<open>
  C10 at a concrete input: the mode \<open>first\<close> is unknown, the target is found and the
  list stays empty.
\<close>

theorem findMsgAndPrecursors_err_nil_witness:
  "snd (snd (findMsgAndPrecursors demo_cid ''first'' demo_target demo_msgs)) = None \<and>
   ''first'' \<noteq> PrecursorSelectAll \<and> ''first'' \<noteq> PrecursorSelectSender \<and>
   fst (findMsgAndPrecursors demo_cid ''first'' demo_target demo_msgs) = []"
  using findMsgAndPrecursors_err_nil [of demo_cid "''first''" demo_target demo_msgs]
  by (simp add: PrecursorSelectAll_def PrecursorSelectSender_def)

text \<open>
  C1. The target appears at position \<open>k\<close> of the canonical list: the entry there carries
  the target's CID and the target message, and no earlier entry carries that CID (the
  scan stops at the first match; a canonical list holds a message once). Then mode
  \<open>sender\<close> returns the messages before \<open>k\<close> whose sender is the target's, in order,
  followed by the target, and mode \<open>all\<close> returns the messages at positions up to and
  including \<open>k\<close>; both with \<open>found = true\<close> and a nil error.
\<close>

theorem findMsgAndPrecursors_selects:
  assumes "k < length msgs"
    and "Cid (msgs ! k) = mcid target"
    and "Message (msgs ! k) = target"
    and "\<forall>j < k. Cid (msgs ! j) \<noteq> mcid target"
  shows "findMsgAndPrecursors mcid PrecursorSelectSender target msgs =
           (filter (\<lambda>m. From m = From target) (map Message (take k msgs)) @ [target],
            True, None) \<and>
         findMsgAndPrecursors mcid PrecursorSelectAll target msgs =
           (map Message (take (Suc k) msgs), True, None)"
proof -
  have split: "take (Suc k) msgs = take k msgs @ [msgs ! k]"
    using assms(1) by (simp add: take_Suc_conv_app_nth)
  have ne: "PrecursorSelectSender \<noteq> PrecursorSelectAll"
    by (simp add: PrecursorSelectSender_def PrecursorSelectAll_def)
  have sender: "filter (included PrecursorSelectSender target) xs =
      filter (\<lambda>a. From (Message a) = From target) xs" for xs
    using ne by (intro filter_cong) (auto simp: included_def)
  have all: "filter (included PrecursorSelectAll target) xs = xs" for xs
    by (induction xs) (auto simp: included_def)
  have "findMsgAndPrecursors mcid PrecursorSelectSender target msgs =
      (map Message (filter (\<lambda>a. From (Message a) = From target) (take (Suc k) msgs)),
       True, None)"
    unfolding findMsgAndPrecursors_def
    using findLoop_first [of k msgs mcid target PrecursorSelectSender "[]"] assms(1,2,4)
    by (simp only: sender append_Nil)
  moreover have "findMsgAndPrecursors mcid PrecursorSelectAll target msgs =
      (map Message (take (Suc k) msgs), True, None)"
    unfolding findMsgAndPrecursors_def
    using findLoop_first [of k msgs mcid target PrecursorSelectAll "[]"] assms(1,2,4)
    by (simp only: all append_Nil)
  ultimately show ?thesis
    using assms(3) by (simp add: split filter_map comp_def)
qed

text \<open>
  C1 on the example scenario: target at position 3 of five messages, positions 0 and 1
  from the target's sender, position 2 from another. \<open>sender\<close> gives messages 0, 1, 3
  and \<open>all\<close> gives messages 0, 1, 2, 3.
\<close>

theorem findMsgAndPrecursors_selects_witness:
  "findMsgAndPrecursors demo_cid PrecursorSelectSender demo_target demo_msgs =
     ([demo_msg ''S'' ''0'', demo_msg ''S'' ''1'', demo_msg ''S'' ''3''], True, None) \<and>
   findMsgAndPrecursors demo_cid PrecursorSelectAll demo_target demo_msgs =
     ([demo_msg ''S'' ''0'', demo_msg ''S'' ''1'', demo_msg ''T'' ''2'',
       demo_msg ''S'' ''3''], True, None)"
proof -
  have k: "(3::nat) < length demo_msgs"
    by (simp add: demo_msgs_def)
  have at: "Cid (demo_msgs ! 3) = demo_cid demo_target"
    by (simp add: demo_msgs_def demo_entry_def demo_target_def)
  have msg: "Message (demo_msgs ! 3) = demo_target"
    by (simp add: demo_msgs_def demo_entry_def demo_target_def)
  have first: "\<forall>j < 3. Cid (demo_msgs ! j) \<noteq> demo_cid demo_target"
    by (simp add: demo_msgs_def demo_entry_def demo_target_def demo_cid_def demo_msg_def
        All_less_Suc numeral_3_eq_3)
  show ?thesis
    using findMsgAndPrecursors_selects [of 3 demo_msgs demo_cid demo_target] k at msg first
    by (simp add: demo_msgs_def demo_entry_def demo_target_def demo_msg_def
        numeral_3_eq_3)
qed

section \<open>What the stages add to the trace\<close>

lemmas run_defs = ok_def abort_def andThen_def query_def wrapping_def emit_def on_store_def
  deferring_def

lemmas stage_defs = doExtract_def doExtract_vector_def doExtract_execute_def doExtract_locate_def
  doExtract_select_def doExtract_replay_def doExtract_retain_def doExtract_verify_def
  doExtract_assemble_def doExtract_output_def encode_def execute_def masked_def first_block_def
  resolveFromChain_def fetchThisAndPrevTipset_def findMsgAndPrecursors_def slice_upto_def
  AssertMsgResult_failed_def PrecursorSelectAll_def PrecursorSelectSender_def EmptyTSK_def

lemmas demo_defs = demo_env_def demo_opts_def demo_world_def demo_msgs_def demo_entry_def
  demo_target_def demo_cid_def demo_msg_def demo_incTs_def demo_execTs_def demo_ret_def
  demo_full_def demo_absent_def demo_mismatch_def demo_nil_def demo_down_def demo_located_def
  demo_executed_def demo_params_def demo_actors_def demo_forged_def

lemma adds_ok: "adds P S (ok a)"
  by (simp add: adds_def ok_def)

lemma adds_abort: "adds P S (abort e)"
  by (simp add: adds_def abort_def)

lemma adds_query: "adds P S (query r)"
  by (simp add: adds_def query_def)

lemma adds_on_store: "adds P S (on_store f)"
  by (simp add: adds_def on_store_def split: prod.splits)

lemma adds_emit: "P ev \<longrightarrow> ev \<in> S \<Longrightarrow> adds P S (emit ev)"
  by (auto simp: adds_def emit_def)

lemma adds_andThen:
  assumes m: "adds P S m"
    and f: "\<And>w a w'. m w = (Inr a, w') \<Longrightarrow> adds P S (f a)"
  shows "adds P S (andThen m f)"
  unfolding adds_def
proof
  fix w
  obtain r w' where mw: "m w = (r, w')"
    by (cases "m w")
  from m obtain evs where evs: "filter P (trace w') = filter P (trace w) @ evs" "set evs \<subseteq> S"
    unfolding adds_def using mw by (metis snd_conv)
  show "\<exists>evs. filter P (trace (snd (andThen m f w))) = filter P (trace w) @ evs \<and> set evs \<subseteq> S"
  proof (cases r)
    case (Inl e)
    with mw evs show ?thesis
      by (simp add: andThen_def)
  next
    case (Inr a)
    from f [of w a w'] mw Inr obtain evs' where
      "filter P (trace (snd (f a w'))) = filter P (trace w') @ evs'" "set evs' \<subseteq> S"
      unfolding adds_def by blast
    with mw Inr evs show ?thesis
      by (simp add: andThen_def)
  qed
qed

lemma adds_wrapping: "adds P S m \<Longrightarrow> adds P S (wrapping format m)"
  unfolding adds_def wrapping_def
  by (auto split: prod.splits sum.splits) (metis snd_conv)+

lemma adds_execute:
  "(\<And>r. P (Executed params r) \<longrightarrow> Executed params r \<in> S) \<Longrightarrow> adds P S (execute env params)"
  by (auto simp: adds_def execute_def split: prod.splits)

lemma adds_masked:
  "P (GetMaskedStateTree_call root retain) \<longrightarrow> GetMaskedStateTree_call root retain \<in> S \<Longrightarrow>
   adds P S (masked env root retain)"
  by (auto simp: adds_def masked_def split: prod.splits)

lemma adds_encode:
  "(\<And>b. P (Write d b) \<longrightarrow> Write d b \<in> S) \<Longrightarrow> adds P S (encode env d vector)"
  by (auto simp: adds_def encode_def split: prod.splits)

lemma adds_call_carWriter: "adds P S (call_carWriter g cw)"
  by (cases cw) (simp_all add: adds_on_store)

lemma adds_replay:
  assumes "\<And>c s. \<not> P (Log c s)" and "\<And>p r. P (Executed p r) \<longrightarrow> Executed p r \<in> S"
  shows "adds P S (replay env epoch circ fee ms root)"
proof (induction ms arbitrary: root)
  case Nil
  show ?case by (simp add: adds_def)
next
  case (Cons m ms)
  let ?step = "andThen (emit (Log Plain ''applying precursor %d, cid: %s'')) (\<lambda>_.
      wrapping ''failed to execute precursor message: %w''
        (execute env \<lparr>p_Preroot = root, p_Epoch = epoch, p_Message = m,
                       p_CircSupply = circ, p_BaseFee = fee\<rparr>))"
  have eq: "replay env epoch circ fee (m # ms) root =
      andThen ?step (\<lambda>(ret, root'). replay env epoch circ fee ms root')"
    by (rule ext) (simp add: andThen_def split: prod.splits sum.splits)
  have "adds P S ?step"
    by (intro adds_andThen adds_emit adds_wrapping adds_execute) (simp_all add: assms)
  then show ?case
    unfolding eq by (rule adds_andThen) (simp add: Cons.IH split: prod.splits)
qed


lemmas adds_steps = adds_andThen adds_wrapping adds_query adds_emit adds_ok adds_abort
  adds_on_store adds_call_carWriter

lemma adds_locate:
  assumes "\<And>c s. \<not> P (Log c s)"
  shows "adds P S (doExtract_locate env opts)"
  unfolding doExtract_locate_def resolveFromChain_def fetchThisAndPrevTipset_def
  by (intro adds_steps) (auto intro!: adds_steps simp: assms split: prod.splits)

lemma adds_select:
  assumes "\<And>c s. \<not> P (Log c s)"
  shows "adds P S (doExtract_select env opts l)"
  unfolding doExtract_select_def
  by (auto intro!: adds_steps simp: assms split: prod.splits option.splits)

lemma adds_replay_stage:
  assumes "\<And>c s. \<not> P (Log c s)" and "\<And>p r. P (Executed p r) \<longrightarrow> Executed p r \<in> S"
  shows "adds P S (doExtract_replay env l precursors)"
  unfolding doExtract_replay_def
  by (intro adds_steps adds_replay) (auto simp: assms)

lemma adds_verify:
  assumes "\<And>c s. \<not> P (Log c s)"
  shows "adds P S (doExtract_verify env l x)"
  unfolding doExtract_verify_def
  by (intro adds_steps) (auto intro!: adds_steps simp: assms split: option.splits)

lemma adds_assemble:
  assumes "\<And>c s. \<not> P (Log c s)"
  shows "adds P S (doExtract_assemble env opts l x)"
  unfolding doExtract_assemble_def
  by (intro adds_steps) (auto simp: assms)

lemma wrapping_query_Inr: "wrapping format (query r) w = (Inr a, w') \<Longrightarrow> r = Inr a"
  by (auto simp: wrapping_def query_def split: sum.splits)

lemma adds_retain:
  assumes logs: "\<And>c s. \<not> P (Log c s)"
    and exec: "\<And>p r. P (Executed p r) \<longrightarrow> Executed p r \<in> S"
    and mask: "\<And>accessed. GetAccessedActors env (l_mcid l) = Inr accessed \<Longrightarrow>
      o_retain opts = ''accessed-actors'' \<Longrightarrow>
      P (GetMaskedStateTree_call root
          (accessed @ [reward_Address env, BurntFundsActorAddr env, init_Address env])) \<Longrightarrow>
      GetMaskedStateTree_call root
          (accessed @ [reward_Address env, BurntFundsActorAddr env, init_Address env]) \<in> S"
  shows "adds P S (doExtract_retain env opts l fee root)"
  unfolding doExtract_retain_def
  apply (intro adds_steps)
   apply (simp add: logs)
  apply (auto intro!: adds_steps adds_execute adds_masked simp: logs exec ok_def
      dest!: wrapping_query_Inr split: prod.splits)
  apply (rule mask; assumption)+
  done

lemma adds_deferring:
  assumes "adds P S m" and "\<And>ev. ev \<in> set evs \<Longrightarrow> P ev \<Longrightarrow> ev \<in> S"
  shows "adds P S (deferring evs m)"
  unfolding adds_def
proof
  fix w
  obtain r w' where mw: "m w = (r, w')"
    by (cases "m w")
  from assms(1) obtain new where new: "filter P (trace w') = filter P (trace w) @ new" "set new \<subseteq> S"
    unfolding adds_def using mw by (metis snd_conv)
  have "filter P (trace (snd (deferring evs m w))) = filter P (trace w) @ (new @ filter P evs)"
    using mw new(1) by (simp add: deferring_def)
  moreover have "set (new @ filter P evs) \<subseteq> S"
    using new(2) assms(2) by auto
  ultimately show "\<exists>evs'. filter P (trace (snd (deferring evs m w))) = filter P (trace w) @ evs' \<and>
      set evs' \<subseteq> S"
    by blast
qed

lemma adds_output:
  assumes logs: "\<And>c s. \<not> P (Log c s)" and fs: "\<And>ev. is_fs ev \<Longrightarrow> \<not> P ev"
  shows "adds P S (doExtract_output env opts vector)"
proof -
  have enc: "adds P S (encode env d vector)" for d
    by (rule adds_encode) (simp add: fs)
  have "adds P S (deferring [Log Plain ''wrote test vector to file: %s'', Close (o_file opts)]
          (encode env (File (o_file opts)) vector))"
    by (rule adds_deferring [OF enc]) (auto simp: logs fs)
  then show ?thesis
    unfolding doExtract_output_def
    by (auto intro!: adds_steps simp: logs fs enc)
qed

lemma locate_mcid:
  "doExtract_locate env opts w = (Inr l, w') \<Longrightarrow> cid_Decode env (o_cid opts) = Inr (l_mcid l)"
  by (auto simp: doExtract_locate_def run_defs split: sum.splits prod.splits)

lemma adds_execute_stage:
  assumes logs: "\<And>c s. \<not> P (Log c s)"
    and exec: "\<And>p r. P (Executed p r) \<longrightarrow> Executed p r \<in> S"
    and mask: "\<And>mcid accessed root. cid_Decode env (o_cid opts) = Inr mcid \<Longrightarrow>
      GetAccessedActors env mcid = Inr accessed \<Longrightarrow> o_retain opts = ''accessed-actors'' \<Longrightarrow>
      P (GetMaskedStateTree_call root
          (accessed @ [reward_Address env, BurntFundsActorAddr env, init_Address env])) \<Longrightarrow>
      GetMaskedStateTree_call root
          (accessed @ [reward_Address env, BurntFundsActorAddr env, init_Address env]) \<in> S"
  shows "adds P S (doExtract_execute env opts)"
  unfolding doExtract_execute_def
proof (rule adds_andThen)
  show "adds P S (doExtract_locate env opts)"
    by (rule adds_locate) (rule logs)
next
  fix w l w'
  assume "doExtract_locate env opts w = (Inr l, w')"
  then have mc: "cid_Decode env (o_cid opts) = Inr (l_mcid l)"
    by (rule locate_mcid)
  show "adds P S (andThen (doExtract_select env opts l) (\<lambda>precursors.
          andThen (doExtract_replay env l precursors) (\<lambda>(basefee, root).
          andThen (doExtract_retain env opts l basefee root) (\<lambda>x. ok (l, x)))))"
  proof (rule adds_andThen)
    show "adds P S (doExtract_select env opts l)"
      by (rule adds_select) (rule logs)
  next
    fix precursors
    show "adds P S (andThen (doExtract_replay env l precursors) (\<lambda>(basefee, root).
            andThen (doExtract_retain env opts l basefee root) (\<lambda>x. ok (l, x))))"
    proof (rule adds_andThen)
      show "adds P S (doExtract_replay env l precursors)"
        by (rule adds_replay_stage) (rule logs, rule exec)
    next
      fix a :: "int \<times> cid"
      obtain basefee root where a: "a = (basefee, root)"
        by (cases a)
      have "adds P S (doExtract_retain env opts l basefee root)"
        by (rule adds_retain) (rule logs, rule exec, rule mask [OF mc])
      then show "adds P S (case a of (basefee, root) \<Rightarrow>
              andThen (doExtract_retain env opts l basefee root) (\<lambda>x. ok (l, x)))"
        unfolding a by (simp add: adds_andThen adds_ok)
    qed
  qed
qed

lemma adds_vector_stage:
  assumes logs: "\<And>c s. \<not> P (Log c s)"
    and exec: "adds P S (doExtract_execute env opts)"
  shows "adds P S (doExtract_vector env opts)"
  unfolding doExtract_vector_def
proof (rule adds_andThen [OF exec])
  fix a :: "located \<times> executed"
  obtain l x where a: "a = (l, x)"
    by (cases a)
  show "adds P S (case a of (l, x) \<Rightarrow> andThen (doExtract_verify env l x)
          (\<lambda>receipt. doExtract_assemble env opts l x))"
    unfolding a by (simp add: adds_andThen adds_verify adds_assemble logs)
qed

lemma adds_masked_doExtract: "adds is_masked (retain_calls env opts) (doExtract env opts)"
  unfolding doExtract_def
proof (rule adds_andThen)
  have "adds is_masked (retain_calls env opts) (doExtract_execute env opts)"
    by (rule adds_execute_stage) (auto simp: retain_calls_def)
  then show "adds is_masked (retain_calls env opts) (doExtract_vector env opts)"
    by (rule adds_vector_stage [rotated]) simp
next
  fix vector
  show "adds is_masked (retain_calls env opts) (doExtract_output env opts vector)"
  proof (rule adds_output)
    fix ev :: event
    assume "is_fs ev"
    then show "\<not> is_masked ev"
      by (cases ev) simp_all
  qed simp
qed

lemma adds_fs_execute: "adds is_fs {} (doExtract_execute env opts)"
  by (rule adds_execute_stage) simp_all

lemma adds_none: "adds P {} m \<Longrightarrow> filter P (trace (snd (m w))) = filter P (trace w)"
  unfolding adds_def by (metis append_Nil2 set_empty subset_empty)

lemma select_not_found:
  "findMsgAndPrecursors (Message_Cid env) (o_precursor opts) (l_msg l) (l_msgs l) = (related, False, err) \<Longrightarrow>
   doExtract_select env opts l w =
     (Inl (Errorf ''message not found; precursors found: %d'' [ArgD (int (length related))]), w)"
  using findLoop_err [of "Message_Cid env" "o_precursor opts" "l_msg l" "l_msgs l" "[]"]
  by (simp add: doExtract_select_def findMsgAndPrecursors_def abort_def)

lemma adds_fs_vector: "adds is_fs {} (doExtract_vector env opts)"
  by (rule adds_vector_stage [OF _ adds_fs_execute]) simp



lemma call_carWriter_store:
  "store w' = store w \<Longrightarrow> fst (call_carWriter env cw w') = fst (call_carWriter env cw w)"
  by (cases cw) (simp_all add: on_store_def split: prod.splits)

lemma assemble_succeeds:
  assumes ser: "Message_Serialize env (l_msg l) = Inr msgBytes"
    and car: "fst (call_carWriter env (x_carWriter x) w) = Inr car"
    and gz: "gzip_Flush env car = Inr ()" "gzip_Close env car = Inr ()"
    and api: "api_Version env = Inr version" "StateNetworkName env = Inr ntwkName"
  shows "\<exists>vector w'. doExtract_assemble env opts l x w = (Inr vector, w') \<and>
           Receipts (Post vector) = [local_receipt (x_applyret x)] \<and>
           post_RootCID (Post vector) = x_postroot x \<and>
           pre_RootCID (Pre vector) = x_preroot x \<and>
           ApplyMessages vector = [msgBytes] \<and>
           CAR vector = gzip_Bytes env car"
proof -
  let ?w = "w\<lparr>trace := trace w @ [Log Plain ''generating vector'']\<rparr>"
  have "fst (call_carWriter env (x_carWriter x) ?w) = Inr car"
    using car call_carWriter_store [of ?w w env "x_carWriter x"] by simp
  then obtain w' where "call_carWriter env (x_carWriter x) ?w = (Inr car, w')"
    by (cases "call_carWriter env (x_carWriter x) ?w") simp
  with ser gz api show ?thesis
    by (simp add: doExtract_assemble_def local_receipt_def run_defs)
qed

section \<open>The resolver, the pipeline and the claims about them\<close>

text \<open>
  C5. With a block hint the resolver decodes it, fetches the block for its height \<open>h\<close>,
  takes as execution tipset the tipset at height \<open>h + 1\<close> looked up from the head
  (\<open>EmptyTSK\<close>), and as inclusion tipset the tipset at height \<open>h\<close> looked up from the
  key of the execution tipset. Without a hint it searches the message and returns the
  tipset found as execution tipset and the tipset of its parents as inclusion tipset. The
  resolver succeeds with these three results exactly when the calls named succeed.
\<close>

theorem resolveFromChain_resolves:
  assumes msg: "ChainGetMessage api mcid = Inr msg"
  shows "(block \<noteq> [] \<longrightarrow>
           (fst (resolveFromChain api mcid block w) = Inr (msg, execTs, incTs) \<longleftrightarrow>
            (\<exists>bcid blk. cid_Decode api block = Inr bcid \<and> ChainGetBlock api bcid = Inr blk \<and>
               ChainGetTipSetByHeight api (BlockHeight blk + 1) EmptyTSK = Inr execTs \<and>
               ChainGetTipSetByHeight api (BlockHeight blk) (Key execTs) = Inr incTs))) \<and>
         (block = [] \<longrightarrow>
           (fst (resolveFromChain api mcid block w) = Inr (msg, execTs, incTs) \<longleftrightarrow>
            (\<exists>msgInfo. StateSearchMsg api mcid = Inr msgInfo \<and>
               ChainGetTipSet api (LookupTipSet msgInfo) = Inr execTs \<and>
               ChainGetTipSet api (Parents execTs) = Inr incTs)))"
  using msg
  by (auto simp: resolveFromChain_def fetchThisAndPrevTipset_def andThen_def query_def
      wrapping_def emit_def ok_def split: sum.splits prod.splits)

text \<open>C5 on the example chain, with the hint \<open>b7\<close> and without a hint.\<close>

theorem resolveFromChain_resolves_witness:
  "ChainGetMessage demo_env ''S3'' = Inr demo_target \<and>
   fst (resolveFromChain demo_env ''S3'' ''b7'' demo_world) = Inr (demo_target, demo_execTs, demo_incTs) \<and>
   fst (resolveFromChain demo_env ''S3'' [] demo_world) = Inr (demo_target, demo_execTs, demo_incTs)"
proof -
  have msg: "ChainGetMessage demo_env ''S3'' = Inr demo_target"
    by (simp add: demo_env_def)
  have hint: "\<exists>bcid blk. cid_Decode demo_env ''b7'' = Inr bcid \<and> ChainGetBlock demo_env bcid = Inr blk \<and>
               ChainGetTipSetByHeight demo_env (BlockHeight blk + 1) EmptyTSK = Inr demo_execTs \<and>
               ChainGetTipSetByHeight demo_env (BlockHeight blk) (Key demo_execTs) = Inr demo_incTs"
    by (simp add: demo_env_def demo_execTs_def)
  have search: "\<exists>msgInfo. StateSearchMsg demo_env ''S3'' = Inr msgInfo \<and>
               ChainGetTipSet demo_env (LookupTipSet msgInfo) = Inr demo_execTs \<and>
               ChainGetTipSet demo_env (Parents demo_execTs) = Inr demo_incTs"
    by (simp add: demo_env_def demo_execTs_def)
  show ?thesis
    using resolveFromChain_resolves [OF msg, of "''b7''" demo_world demo_execTs demo_incTs]
      resolveFromChain_resolves [OF msg, of "[]" demo_world demo_execTs demo_incTs]
      msg hint search
    by simp
qed

text \<open>
  C7. When no entry of the canonical list carries the target's CID, the selector returns
  \<open>found = false\<close>, a nil error and a list no longer than the input. And whenever the
  selector returns \<open>found = false\<close> on the located message and list, the extraction
  ends there with the error \<open>message not found\<close>, before any call on the destination.
\<close>

theorem doExtract_target_absent:
  "((\<forall>m \<in> set msgs. Cid m \<noteq> mcid target) \<longrightarrow>
      (\<exists>related. findMsgAndPrecursors mcid mode target msgs = (related, False, None) \<and>
                 length related \<le> length msgs)) \<and>
   (doExtract_locate env opts w = (Inr l, w1) \<and>
    findMsgAndPrecursors (Message_Cid env) (o_precursor opts) (l_msg l) (l_msgs l) =
      (related', False, err) \<longrightarrow>
      doExtract env opts w =
        (Inl (Errorf ''message not found; precursors found: %d'' [ArgD (int (length related'))]), w1) \<and>
      filter is_fs (trace w1) = filter is_fs (trace w))"
proof (intro conjI impI)
  assume "\<forall>m \<in> set msgs. Cid m \<noteq> mcid target"
  with findLoop_absent [of msgs mcid target mode "[]"]
  show "\<exists>related. findMsgAndPrecursors mcid mode target msgs = (related, False, None) \<and>
      length related \<le> length msgs"
    by (simp add: findMsgAndPrecursors_def)
next
  assume a: "doExtract_locate env opts w = (Inr l, w1) \<and>
    findMsgAndPrecursors (Message_Cid env) (o_precursor opts) (l_msg l) (l_msgs l) =
      (related', False, err)"
  with select_not_found [of env opts l related' err w1]
  show "doExtract env opts w =
        (Inl (Errorf ''message not found; precursors found: %d'' [ArgD (int (length related'))]), w1)"
    by (simp add: doExtract_def doExtract_vector_def doExtract_execute_def andThen_def)
  from a adds_none [OF adds_locate [of is_fs "{}" env opts], of w]
  show "filter is_fs (trace w1) = filter is_fs (trace w)"
    by simp
qed

text \<open>C7 on the example, with a canonical list that stops before the target.\<close>

theorem doExtract_target_absent_witness:
  "findMsgAndPrecursors demo_cid PrecursorSelectSender demo_target (take 3 demo_msgs) =
     ([demo_msg ''S'' ''0'', demo_msg ''S'' ''1''], False, None) \<and>
   fst (doExtract demo_absent demo_opts demo_world) =
     Inl (Errorf ''message not found; precursors found: %d'' [ArgD 2]) \<and>
   filter is_fs (trace (snd (doExtract demo_absent demo_opts demo_world))) = []"
proof -
  let ?l = "\<lparr>l_mcid = ''S3'', l_msg = demo_target, l_execTs = demo_execTs, l_incTs = demo_incTs,
      l_circSupplyDetail = \<lparr>FilCirculating = 1000\<rparr>, l_msgs = take 3 demo_msgs\<rparr>"
  let ?w1 = "snd (doExtract_locate demo_absent demo_opts demo_world)"
  have absent: "\<forall>m \<in> set (take 3 demo_msgs). Cid m \<noteq> demo_cid demo_target"
    by (simp add: demo_defs)
  have sel: "findMsgAndPrecursors demo_cid PrecursorSelectSender demo_target (take 3 demo_msgs) =
     ([demo_msg ''S'' ''0'', demo_msg ''S'' ''1''], False, None)"
    by (simp add: stage_defs demo_defs)
  have loc: "doExtract_locate demo_absent demo_opts demo_world = (Inr ?l, ?w1)"
    by (simp add: demo_absent_def run_defs stage_defs demo_defs)
  have sel': "findMsgAndPrecursors (Message_Cid demo_absent) (o_precursor demo_opts) (l_msg ?l) (l_msgs ?l) =
     ([demo_msg ''S'' ''0'', demo_msg ''S'' ''1''], False, None)"
    using sel by (simp add: demo_absent_def demo_env_def demo_opts_def PrecursorSelectSender_def)
  show ?thesis
    using doExtract_target_absent [of "take 3 demo_msgs" demo_cid demo_target PrecursorSelectSender
        demo_absent demo_opts demo_world ?l ?w1 "[demo_msg ''S'' ''0'', demo_msg ''S'' ''1'']" None]
      absent sel loc sel'
    by (simp add: demo_world_def)
qed

text \<open>
  C2. The stages up to the local execution of the target have succeeded. If the chain has
  a receipt that differs from the local result in exit code, return value or gas used,
  the extraction fails with \<open>vector generation aborted\<close> and has made no call on the
  destination. If the chain answers with a nil receipt and no error, the verification
  succeeds, its last log line is the yellow warning, and the run goes on with the
  assembly. Then, when the collaborators of the assembly succeed (serializing the message,
  writing and compressing the archive, node version, network name), the vector is
  produced with the local receipt as its only receipt, nothing has been written before,
  and it is this vector that the output stage encodes to the destination, the run
  returning what the encoder returns.
\<close>

theorem doExtract_verification_gate:
  assumes exec: "doExtract_execute env opts w = (Inr (l, x), w1)"
  shows "(StateGetReceipt env (l_mcid l) (Key (l_execTs l)) = Inr (Some rec) \<and>
          (rec_ExitCode rec \<noteq> ExitCode (x_applyret x) \<or> rec_Return rec \<noteq> Return (x_applyret x) \<or>
           rec_GasUsed rec \<noteq> GasUsed (x_applyret x)) \<longrightarrow>
            fst (doExtract env opts w) = Inl (Errorf ''vector generation aborted'' []) \<and>
            filter is_fs (trace (snd (doExtract env opts w))) = filter is_fs (trace w)) \<and>
         (StateGetReceipt env (l_mcid l) (Key (l_execTs l)) = Inr None \<longrightarrow>
            (\<exists>w2. doExtract_verify env l x w1 = (Inr (local_receipt (x_applyret x)), w2) \<and>
               trace w2 = trace w1 @
                 [Log Plain ''message applied; preroot: %s, postroot: %s'',
                  Log Plain ''performing sanity check on receipt'',
                  Log Plain ''found receipt: %+v'',
                  Log Yellow ''skipping receipts comparison; we got back a nil receipt from lotus''] \<and>
               doExtract env opts w =
                 andThen (doExtract_assemble env opts l x) (doExtract_output env opts) w2 \<and>
               (\<forall>vector w3. doExtract_assemble env opts l x w2 = (Inr vector, w3) \<longrightarrow>
                  Receipts (Post vector) = [local_receipt (x_applyret x)]))) \<and>
         (StateGetReceipt env (l_mcid l) (Key (l_execTs l)) = Inr None \<and>
          Message_Serialize env (l_msg l) = Inr msgBytes \<and>
          fst (call_carWriter env (x_carWriter x) w1) = Inr car \<and>
          gzip_Flush env car = Inr () \<and> gzip_Close env car = Inr () \<and>
          api_Version env = Inr version \<and> StateNetworkName env = Inr ntwkName \<longrightarrow>
            (\<exists>vector w3. doExtract_vector env opts w = (Inr vector, w3) \<and>
               Receipts (Post vector) = [local_receipt (x_applyret x)] \<and>
               post_RootCID (Post vector) = x_postroot x \<and>
               filter is_fs (trace w3) = filter is_fs (trace w) \<and>
               doExtract env opts w = doExtract_output env opts vector w3 \<and>
               (os_MkdirAll env (filepath_Dir env (o_file opts)) = Inr () \<and>
                os_Create env (o_file opts) = Inr () \<longrightarrow>
                  Write (destination opts) (fst (json_Encode env (destination opts) vector))
                    \<in> set (trace (snd (doExtract env opts w))) \<and>
                  fst (doExtract env opts w) =
                    (case snd (json_Encode env (destination opts) vector) of
                       None \<Rightarrow> Inr () | Some e \<Rightarrow> Inl e))))"
proof (intro conjI impI)
  have fs1: "filter is_fs (trace w1) = filter is_fs (trace w)"
    using adds_none [OF adds_fs_execute, of env opts w] exec by simp
  have after: "doExtract env opts w =
      andThen (andThen (doExtract_verify env l x) (\<lambda>receipt. doExtract_assemble env opts l x))
        (doExtract_output env opts) w1"
    using exec by (simp add: doExtract_def doExtract_vector_def andThen_def)
  let ?w2 = "w1\<lparr>trace := trace w1 @
                 [Log Plain ''message applied; preroot: %s, postroot: %s'',
                  Log Plain ''performing sanity check on receipt'',
                  Log Plain ''found receipt: %+v'',
                  Log Yellow ''skipping receipts comparison; we got back a nil receipt from lotus'']\<rparr>"
  {
    assume a: "StateGetReceipt env (l_mcid l) (Key (l_execTs l)) = Inr (Some rec) \<and>
          (rec_ExitCode rec \<noteq> ExitCode (x_applyret x) \<or> rec_Return rec \<noteq> Return (x_applyret x) \<or>
           rec_GasUsed rec \<noteq> GasUsed (x_applyret x))"
    then have v: "fst (doExtract_verify env l x w1) = Inl (Errorf ''vector generation aborted'' [])"
      "filter is_fs (trace (snd (doExtract_verify env l x w1))) = filter is_fs (trace w1)"
      by (auto simp: doExtract_verify_def AssertMsgResult_failed_def run_defs)
    from v after show "fst (doExtract env opts w) = Inl (Errorf ''vector generation aborted'' [])"
      by (simp add: andThen_def split: prod.splits sum.splits)
    from v after fs1 show "filter is_fs (trace (snd (doExtract env opts w))) = filter is_fs (trace w)"
      by (simp add: andThen_def split: prod.splits sum.splits)
  }
  {
    assume n: "StateGetReceipt env (l_mcid l) (Key (l_execTs l)) = Inr None"
    have v: "doExtract_verify env l x w1 = (Inr (local_receipt (x_applyret x)), ?w2)"
      using n by (simp add: doExtract_verify_def local_receipt_def run_defs)
    have post: "\<forall>vector w3. doExtract_assemble env opts l x ?w2 = (Inr vector, w3) \<longrightarrow>
                  Receipts (Post vector) = [local_receipt (x_applyret x)]"
      by (auto simp: doExtract_assemble_def local_receipt_def run_defs split: prod.splits sum.splits)
    show "\<exists>w2. doExtract_verify env l x w1 = (Inr (local_receipt (x_applyret x)), w2) \<and>
               trace w2 = trace w1 @
                 [Log Plain ''message applied; preroot: %s, postroot: %s'',
                  Log Plain ''performing sanity check on receipt'',
                  Log Plain ''found receipt: %+v'',
                  Log Yellow ''skipping receipts comparison; we got back a nil receipt from lotus''] \<and>
               doExtract env opts w =
                 andThen (doExtract_assemble env opts l x) (doExtract_output env opts) w2 \<and>
               (\<forall>vector w3. doExtract_assemble env opts l x w2 = (Inr vector, w3) \<longrightarrow>
                  Receipts (Post vector) = [local_receipt (x_applyret x)])"
      using v post after by (intro exI [of _ ?w2]) (simp add: andThen_def)
  }
  assume b: "StateGetReceipt env (l_mcid l) (Key (l_execTs l)) = Inr None \<and>
          Message_Serialize env (l_msg l) = Inr msgBytes \<and>
          fst (call_carWriter env (x_carWriter x) w1) = Inr car \<and>
          gzip_Flush env car = Inr () \<and> gzip_Close env car = Inr () \<and>
          api_Version env = Inr version \<and> StateNetworkName env = Inr ntwkName"
  then have v: "doExtract_verify env l x w1 = (Inr (local_receipt (x_applyret x)), ?w2)"
    by (simp add: doExtract_verify_def local_receipt_def run_defs)
  have car2: "fst (call_carWriter env (x_carWriter x) ?w2) = Inr car"
    using b call_carWriter_store [of ?w2 w1 env "x_carWriter x"] by simp
  from assemble_succeeds [of env l msgBytes x ?w2 car version ntwkName opts] b car2
  obtain vector w3 where asm: "doExtract_assemble env opts l x ?w2 = (Inr vector, w3)"
    and rc: "Receipts (Post vector) = [local_receipt (x_applyret x)]"
    and pr: "post_RootCID (Post vector) = x_postroot x"
    by blast
  have vec: "doExtract_vector env opts w = (Inr vector, w3)"
    using exec v asm by (simp add: doExtract_vector_def andThen_def)
  have fs3: "filter is_fs (trace w3) = filter is_fs (trace w)"
    using adds_none [OF adds_fs_vector, of env opts w] vec by simp
  have out: "doExtract env opts w = doExtract_output env opts vector w3"
    using vec by (simp add: doExtract_def andThen_def)
  have fin: "os_MkdirAll env (filepath_Dir env (o_file opts)) = Inr () \<and>
                os_Create env (o_file opts) = Inr () \<longrightarrow>
                  Write (destination opts) (fst (json_Encode env (destination opts) vector))
                    \<in> set (trace (snd (doExtract env opts w))) \<and>
                  fst (doExtract env opts w) =
                    (case snd (json_Encode env (destination opts) vector) of
                       None \<Rightarrow> Inr () | Some e \<Rightarrow> Inl e)"
    unfolding out
    by (auto simp: doExtract_output_def destination_def encode_def run_defs
        split: prod.splits sum.splits option.splits)
  from vec rc pr fs3 out fin
  show "\<exists>vector w3. doExtract_vector env opts w = (Inr vector, w3) \<and>
               Receipts (Post vector) = [local_receipt (x_applyret x)] \<and>
               post_RootCID (Post vector) = x_postroot x \<and>
               filter is_fs (trace w3) = filter is_fs (trace w) \<and>
               doExtract env opts w = doExtract_output env opts vector w3 \<and>
               (os_MkdirAll env (filepath_Dir env (o_file opts)) = Inr () \<and>
                os_Create env (o_file opts) = Inr () \<longrightarrow>
                  Write (destination opts) (fst (json_Encode env (destination opts) vector))
                    \<in> set (trace (snd (doExtract env opts w))) \<and>
                  fst (doExtract env opts w) =
                    (case snd (json_Encode env (destination opts) vector) of
                       None \<Rightarrow> Inr () | Some e \<Rightarrow> Inl e))"
    by blast
qed

text \<open>
  C2 on the example: a chain receipt with other gas; and a nil receipt, where the run
  writes the vector, with the local receipt, to the file.
\<close>

theorem doExtract_verification_gate_witness:
  "fst (doExtract demo_mismatch demo_opts demo_world) = Inl (Errorf ''vector generation aborted'' []) \<and>
   filter is_fs (trace (snd (doExtract demo_mismatch demo_opts demo_world))) = [] \<and>
   map_sum id (\<lambda>v. Receipts (Post v)) (fst (doExtract_vector demo_nil demo_opts demo_world)) =
     Inr [\<lparr>sr_ExitCode = 0, sr_ReturnValue = [], sr_GasUsed = 10\<rparr>] \<and>
   Log Yellow ''skipping receipts comparison; we got back a nil receipt from lotus''
     \<in> set (trace (snd (doExtract_verify demo_nil demo_located demo_executed
         (snd (doExtract_execute demo_nil demo_opts demo_world))))) \<and>
   Write (File ''out'') [123, 125] \<in> set (trace (snd (doExtract demo_nil demo_opts demo_world))) \<and>
   fst (doExtract demo_nil demo_opts demo_world) = Inr ()"
proof -
  let ?w1 = "snd (doExtract_execute demo_nil demo_opts demo_world)"
  have exec_m: "doExtract_execute demo_mismatch demo_opts demo_world =
      (Inr (demo_located, demo_executed), snd (doExtract_execute demo_mismatch demo_opts demo_world))"
    by (simp add: run_defs stage_defs demo_defs)
  have exec_n: "doExtract_execute demo_nil demo_opts demo_world = (Inr (demo_located, demo_executed), ?w1)"
    by (simp add: run_defs stage_defs demo_defs)
  have rec_m: "StateGetReceipt demo_mismatch (l_mcid demo_located) (Key (l_execTs demo_located)) =
      Inr (Some \<lparr>rec_ExitCode = 0, rec_Return = [], rec_GasUsed = 11\<rparr>)"
    by (simp add: demo_defs)
  have rec_n: "StateGetReceipt demo_nil (l_mcid demo_located) (Key (l_execTs demo_located)) = Inr None"
    by (simp add: demo_defs)
  have differ: "rec_GasUsed \<lparr>rec_ExitCode = 0, rec_Return = [], rec_GasUsed = 11\<rparr> \<noteq>
      GasUsed (x_applyret demo_executed)"
    by (simp add: demo_defs)
  have w0: "filter is_fs (trace demo_world) = []"
    by (simp add: demo_world_def)
  have loc: "local_receipt (x_applyret demo_executed) =
      \<lparr>sr_ExitCode = 0, sr_ReturnValue = [], sr_GasUsed = 10\<rparr>"
    by (simp add: local_receipt_def demo_defs)
  have collab: "Message_Serialize demo_nil (l_msg demo_located) = Inr []"
    "fst (call_carWriter demo_nil (x_carWriter demo_executed) ?w1) = Inr []"
    "gzip_Flush demo_nil [] = Inr ()" "gzip_Close demo_nil [] = Inr ()"
    "api_Version demo_nil = Inr ''1''" "StateNetworkName demo_nil = Inr ''net''"
    by (simp_all add: demo_defs on_store_def)
  have os: "os_MkdirAll demo_nil (filepath_Dir demo_nil (o_file demo_opts)) = Inr ()"
    "os_Create demo_nil (o_file demo_opts) = Inr ()"
    by (simp_all add: demo_defs)
  have enc: "destination demo_opts = File ''out''" "json_Encode demo_nil d v = ([123, 125], None)" for d v
    by (simp_all add: destination_def demo_defs)
  note gate_m = doExtract_verification_gate [OF exec_m,
      of "\<lparr>rec_ExitCode = 0, rec_Return = [], rec_GasUsed = 11\<rparr>"]
  note gate_n = doExtract_verification_gate [OF exec_n,
      of "\<lparr>rec_ExitCode = 0, rec_Return = [], rec_GasUsed = 11\<rparr>" "[]" "[]" "''1''" "''net''"]
  from gate_m rec_m differ w0
  have m: "fst (doExtract demo_mismatch demo_opts demo_world) = Inl (Errorf ''vector generation aborted'' []) \<and>
   filter is_fs (trace (snd (doExtract demo_mismatch demo_opts demo_world))) = []"
    by simp
  from gate_n rec_n
  obtain w2 where "doExtract_verify demo_nil demo_located demo_executed ?w1 =
       (Inr (local_receipt (x_applyret demo_executed)), w2)"
     and "Log Yellow ''skipping receipts comparison; we got back a nil receipt from lotus''
        \<in> set (trace w2)"
    by auto
  then have y: "Log Yellow ''skipping receipts comparison; we got back a nil receipt from lotus''
     \<in> set (trace (snd (doExtract_verify demo_nil demo_located demo_executed ?w1)))"
    by simp
  from gate_n rec_n collab os
  obtain vector w3 where v: "doExtract_vector demo_nil demo_opts demo_world = (Inr vector, w3)"
    "Receipts (Post vector) = [local_receipt (x_applyret demo_executed)]"
    "Write (destination demo_opts) (fst (json_Encode demo_nil (destination demo_opts) vector))
       \<in> set (trace (snd (doExtract demo_nil demo_opts demo_world)))"
    "fst (doExtract demo_nil demo_opts demo_world) =
       (case snd (json_Encode demo_nil (destination demo_opts) vector) of
          None \<Rightarrow> Inr () | Some e \<Rightarrow> Inl e)"
    by auto
  from v enc loc m y show ?thesis
    by simp
qed




text \<open>
  C4. Every masked-tree construction of a run happens under the strategy
  \<open>accessed-actors\<close> and receives the list of the actors accessed by the message, as
  computed by \<open>GetAccessedActors\<close> on the decoded message CID, followed by the reward,
  burnt-funds and init actors; as a set, the accessed actors united with these three.
  And under that strategy, once the accessed actors are computed, the retention stage
  makes this call.
\<close>

theorem doExtract_retain_list:
  "(\<exists>evs. filter is_masked (trace (snd (doExtract env opts w))) = filter is_masked (trace w) @ evs \<and>
      (\<forall>root retain. GetMaskedStateTree_call root retain \<in> set evs \<longrightarrow>
         o_retain opts = ''accessed-actors'' \<and>
         (\<exists>mcid accessed. cid_Decode env (o_cid opts) = Inr mcid \<and>
            GetAccessedActors env mcid = Inr accessed \<and>
            retain = accessed @ [reward_Address env, BurntFundsActorAddr env, init_Address env] \<and>
            set retain = set accessed \<union>
              {reward_Address env, BurntFundsActorAddr env, init_Address env}))) \<and>
   (o_retain opts = ''accessed-actors'' \<and> GetAccessedActors env (l_mcid l) = Inr acc \<longrightarrow>
      GetMaskedStateTree_call root
        (acc @ [reward_Address env, BurntFundsActorAddr env, init_Address env])
        \<in> set (trace (snd (doExtract_retain env opts l fee root w'))))"
proof
  from adds_masked_doExtract [of env opts] obtain evs where
    evs: "filter is_masked (trace (snd (doExtract env opts w))) = filter is_masked (trace w) @ evs"
      "set evs \<subseteq> retain_calls env opts"
    unfolding adds_def by blast
  have "\<forall>root retain. GetMaskedStateTree_call root retain \<in> set evs \<longrightarrow>
         o_retain opts = ''accessed-actors'' \<and>
         (\<exists>mcid accessed. cid_Decode env (o_cid opts) = Inr mcid \<and>
            GetAccessedActors env mcid = Inr accessed \<and>
            retain = accessed @ [reward_Address env, BurntFundsActorAddr env, init_Address env] \<and>
            set retain = set accessed \<union>
              {reward_Address env, BurntFundsActorAddr env, init_Address env})"
    using evs(2) by (auto simp: retain_calls_def)
  with evs(1) show "\<exists>evs. filter is_masked (trace (snd (doExtract env opts w))) = filter is_masked (trace w) @ evs \<and>
      (\<forall>root retain. GetMaskedStateTree_call root retain \<in> set evs \<longrightarrow>
         o_retain opts = ''accessed-actors'' \<and>
         (\<exists>mcid accessed. cid_Decode env (o_cid opts) = Inr mcid \<and>
            GetAccessedActors env mcid = Inr accessed \<and>
            retain = accessed @ [reward_Address env, BurntFundsActorAddr env, init_Address env] \<and>
            set retain = set accessed \<union>
              {reward_Address env, BurntFundsActorAddr env, init_Address env}))"
    by blast
next
  show "o_retain opts = ''accessed-actors'' \<and> GetAccessedActors env (l_mcid l) = Inr acc \<longrightarrow>
      GetMaskedStateTree_call root
        (acc @ [reward_Address env, BurntFundsActorAddr env, init_Address env])
        \<in> set (trace (snd (doExtract_retain env opts l fee root w')))"
    by (auto simp: doExtract_retain_def run_defs masked_def execute_def split: prod.splits sum.splits)
qed

text \<open>C4 on the example, under the strategy \<open>accessed-actors\<close>.\<close>

theorem doExtract_retain_list_witness:
  "filter is_masked (trace (snd (doExtract demo_env demo_actors demo_world))) =
     [GetMaskedStateTree_call ''r01'' [''S'', ''3'', ''f02'', ''f099'', ''f01'']] \<and>
   cid_Decode demo_env (o_cid demo_actors) = Inr ''S3'' \<and>
   GetAccessedActors demo_env ''S3'' = Inr [''S'', ''3''] \<and>
   GetMaskedStateTree_call ''r01'' [''S'', ''3'', ''f02'', ''f099'', ''f01'']
     \<in> set (trace (snd (doExtract_retain demo_env demo_actors demo_located 100 ''r01'' demo_world)))"
proof -
  have run: "filter is_masked (trace (snd (doExtract demo_env demo_actors demo_world))) =
     [GetMaskedStateTree_call ''r01'' [''S'', ''3'', ''f02'', ''f099'', ''f01'']]"
    by (simp add: run_defs stage_defs demo_defs)
  have acc: "o_retain demo_actors = ''accessed-actors'' \<and>
      GetAccessedActors demo_env (l_mcid demo_located) = Inr [''S'', ''3'']"
    by (simp add: demo_defs)
  have "cid_Decode demo_env (o_cid demo_actors) = Inr ''S3''"
    "GetAccessedActors demo_env ''S3'' = Inr [''S'', ''3'']"
    by (simp_all add: demo_defs)
  with run acc
    doExtract_retain_list [of demo_env demo_actors demo_world demo_located "[''S'', ''3'']"
      "''r01''" 100 demo_world]
  show ?thesis
    by (simp add: demo_env_def)
qed



text \<open>
  C9, refuted as stated. In mode \<open>sender\<close> the entry whose CID matches is appended only
  when its sender is the target's. On a list whose first entry carries the target's CID
  beside a message of another sender, the selector returns \<open>found = true\<close> with an
  empty list, and the caller's \<open>related[:len(related)-1]\<close> panics.
\<close>

theorem doExtract_select_panics_counterexample:
  "findMsgAndPrecursors demo_cid PrecursorSelectSender demo_target
     [\<lparr>Cid = ''S3'', Message = demo_msg ''T'' ''2''\<rparr>, demo_entry ''S'' ''3''] = ([], True, None) \<and>
   fst (doExtract demo_forged demo_opts demo_world) = Inl (Panic ''slice bounds out of range'')"
  by (simp add: run_defs stage_defs demo_defs)

text \<open>
  C9, amended. The selector returns \<open>found = true\<close>, and the mode is \<open>all\<close>, or it
  is \<open>sender\<close> and the entries that carry the target's CID have the target's sender.
  Then the list is not empty and its last element is the message of the first entry that
  carries the target's CID (the target itself when such entries carry the target
  message); the caller's \<open>related[:len(related)-1]\<close> does not panic, and the caller
  goes on with the list less that last element as precursors.
\<close>

theorem findMsgAndPrecursors_found_last:
  assumes found: "findMsgAndPrecursors (Message_Cid env) (o_precursor opts) (l_msg l) (l_msgs l) =
      (related, True, err)"
    and mode: "o_precursor opts = PrecursorSelectAll \<or>
      (o_precursor opts = PrecursorSelectSender \<and>
       (\<forall>m \<in> set (l_msgs l). Cid m = Message_Cid env (l_msg l) \<longrightarrow>
          From (Message m) = From (l_msg l)))"
  shows "related \<noteq> [] \<and>
         (\<exists>k < length (l_msgs l). Cid (l_msgs l ! k) = Message_Cid env (l_msg l) \<and>
            (\<forall>j < k. Cid (l_msgs l ! j) \<noteq> Message_Cid env (l_msg l)) \<and>
            last related = Message (l_msgs l ! k)) \<and>
         ((\<forall>m \<in> set (l_msgs l). Cid m = Message_Cid env (l_msg l) \<longrightarrow> Message m = l_msg l) \<longrightarrow>
            last related = l_msg l) \<and>
         slice_upto related (int (length related) - 1) = Inr (butlast related) \<and>
         doExtract_select env opts l w =
           (Inr (butlast related),
            w\<lparr>trace := trace w @ [Log Green ''found message; precursors (count: %d): %v'']\<rparr>)"
proof -
  let ?c = "Message_Cid env" and ?t = "l_msg l" and ?ms = "l_msgs l" and ?mode = "o_precursor opts"
  from found obtain k where k: "k < length ?ms" "Cid (?ms ! k) = ?c ?t"
    "\<forall>j < k. Cid (?ms ! j) \<noteq> ?c ?t"
    unfolding findMsgAndPrecursors_def using findLoop_found [of ?c ?mode ?t ?ms "[]" related err]
    by blast
  have mem: "?ms ! k \<in> set ?ms"
    using k(1) by simp
  have incl: "included ?mode ?t (?ms ! k)"
    using mode mem k(2) by (auto simp: included_def)
  have split: "take (Suc k) ?ms = take k ?ms @ [?ms ! k]"
    using k(1) by (simp add: take_Suc_conv_app_nth)
  from findLoop_first [of k ?ms ?c ?t ?mode "[]"] k found
  have rel: "related = map Message (filter (included ?mode ?t) (take k ?ms)) @ [Message (?ms ! k)]"
    and err: "err = None"
    unfolding findMsgAndPrecursors_def by (simp_all add: split incl)
  have ne: "related \<noteq> []" and lst: "last related = Message (?ms ! k)"
    using rel by simp_all
  have sl: "slice_upto related (int (length related) - 1) = Inr (butlast related)"
    using ne by (cases related) (auto simp: slice_upto_def butlast_conv_take)
  have sel: "doExtract_select env opts l w =
           (Inr (butlast related),
            w\<lparr>trace := trace w @ [Log Green ''found message; precursors (count: %d): %v'']\<rparr>)"
    using found err sl by (simp add: doExtract_select_def run_defs)
  have tgt: "(\<forall>m \<in> set ?ms. Cid m = ?c ?t \<longrightarrow> Message m = ?t) \<longrightarrow> last related = ?t"
    using lst mem k(2) by auto
  from k lst have "\<exists>k < length ?ms. Cid (?ms ! k) = ?c ?t \<and>
            (\<forall>j < k. Cid (?ms ! j) \<noteq> ?c ?t) \<and> last related = Message (?ms ! k)"
    by blast
  with ne tgt sl sel show ?thesis
    by blast
qed

text \<open>C9, amended, on the example scenario in mode \<open>sender\<close>.\<close>

theorem findMsgAndPrecursors_found_last_witness:
  "findMsgAndPrecursors (Message_Cid demo_env) (o_precursor demo_opts) (l_msg demo_located)
     (l_msgs demo_located) =
     ([demo_msg ''S'' ''0'', demo_msg ''S'' ''1'', demo_msg ''S'' ''3''], True, None) \<and>
   last [demo_msg ''S'' ''0'', demo_msg ''S'' ''1'', demo_msg ''S'' ''3''] = demo_target \<and>
   doExtract_select demo_env demo_opts demo_located demo_world =
     (Inr [demo_msg ''S'' ''0'', demo_msg ''S'' ''1''],
      \<lparr>store = (), trace = [Log Green ''found message; precursors (count: %d): %v'']\<rparr>)"
proof -
  let ?rel = "[demo_msg ''S'' ''0'', demo_msg ''S'' ''1'', demo_msg ''S'' ''3'']"
  have found: "findMsgAndPrecursors (Message_Cid demo_env) (o_precursor demo_opts)
      (l_msg demo_located) (l_msgs demo_located) = (?rel, True, None)"
    by (simp add: stage_defs demo_defs)
  have wf: "\<forall>m \<in> set (l_msgs demo_located).
      Cid m = Message_Cid demo_env (l_msg demo_located) \<longrightarrow> Message m = l_msg demo_located"
    by (simp add: demo_defs)
  then have mode: "o_precursor demo_opts = PrecursorSelectAll \<or>
      (o_precursor demo_opts = PrecursorSelectSender \<and>
       (\<forall>m \<in> set (l_msgs demo_located). Cid m = Message_Cid demo_env (l_msg demo_located) \<longrightarrow>
          From (Message m) = From (l_msg demo_located)))"
    by (simp add: demo_opts_def PrecursorSelectSender_def)
  have tgt: "l_msg demo_located = demo_target"
    by (simp add: demo_located_def)
  from findMsgAndPrecursors_found_last [OF found mode, of demo_world] wf tgt
  have "last ?rel = demo_target"
    and "doExtract_select demo_env demo_opts demo_located demo_world =
      (Inr (butlast ?rel),
       demo_world\<lparr>trace := trace demo_world @ [Log Green ''found message; precursors (count: %d): %v'']\<rparr>)"
    by simp_all
  with found show ?thesis
    by (simp add: demo_world_def)
qed

end
